theory Spec2Isabelle
  imports Main "HOL-Library.Multiset"
begin

section \<open>JavaScript values shared by the models\<close>

text \<open>
  Strings are lists of characters. An exception is a value: \<open>Error msg\<close> is
  \<^verbatim>\<open>throw new Error(msg)\<close>, \<open>Thrown s\<close> is \<^verbatim>\<open>throw s\<close> of a string, and
  \<open>TypeError\<close> is the exception the runtime raises when a property of \<^verbatim>\<open>undefined\<close>
  is read or a value that is not a function is called. A function that can throw
  returns \<open>js_error + 'a\<close>; \<open>bindE\<close> propagates the exception.
\<close>

datatype js_error = Error string | Thrown string | TypeError

definition bindE :: "js_error + 'a \<Rightarrow> ('a \<Rightarrow> js_error + 'b) \<Rightarrow> js_error + 'b" where
  "bindE r f = (case r of Inl e \<Rightarrow> Inl e | Inr v \<Rightarrow> f v)"

section \<open>dom/functions.ts: the head of xmlParse\<close>

text \<open>
  A regular expression is the set of its matches: \<open>re s i\<close> holds when the expression
  matches in \<open>s\<close> starting at offset \<open>i\<close>. \<^verbatim>\<open>String.prototype.search\<close> returns the
  offset of the leftmost match, or -1.
\<close>

type_synonym regexp = "string \<Rightarrow> nat \<Rightarrow> bool"

definition search :: "regexp \<Rightarrow> string \<Rightarrow> int" where
  "search re s =
     (case find (re s) [0..<Suc (length s)] of None \<Rightarrow> - 1 | Some i \<Rightarrow> int i)"

text \<open>\<^verbatim>\<open>xml.match(/^<\?xml/)\<close>: the string starts with the five characters of the literal.\<close>

definition starts_with_xml_decl :: "string \<Rightarrow> bool" where
  "starts_with_xml_decl xml = (take 5 xml = ''<?xml'')"

text \<open>
  The constants of \<^verbatim>\<open>xmltoken.ts\<close> are not part of the sources; the two VersionInfo
  expressions are parameters. The pair (regexTagname, regexAttribute) that xmlParse
  selects is one of two: the XML 1.0 pair or the XML 1.1 pair.
\<close>

record xmltoken =
  XML10_VERSION_INFO :: regexp
  XML11_VERSION_INFO :: regexp

datatype xml_grammar = XML10 | XML11

text \<open>
  Lines 92--110 of xmlParse. The only \<^verbatim>\<open>throw\<close> statement of the function is here.
\<close>

definition xmlParse_grammar :: "xmltoken \<Rightarrow> string \<Rightarrow> js_error + xml_grammar" where
  "xmlParse_grammar T xml =
     (if starts_with_xml_decl xml then
        (if search (XML10_VERSION_INFO T) xml = 5 then Inr XML10
         else if search (XML11_VERSION_INFO T) xml = 5 then Inr XML11
         else Inl (Error ''VersionInfo is missing, or unknown version number.''))
      else Inr XML10)"

text \<open>
  Lines 112--220, the loop that builds the document with the selected pair of
  expressions, is the parameter \<open>build\<close>. It has no \<^verbatim>\<open>throw\<close> statement; what it can
  raise is a runtime TypeError (\<^verbatim>\<open>regexTagname.exec(text)[1]\<close> on a failed match,
  \<^verbatim>\<open>parent.childNodes\<close> after the stack ran empty), which is the value \<open>None\<close> of \<open>build\<close>.
\<close>

definition xmlParse ::
  "xmltoken \<Rightarrow> (xml_grammar \<Rightarrow> string \<Rightarrow> 'd option) \<Rightarrow> string \<Rightarrow> js_error + 'd" where
  "xmlParse T build xml =
     (case xmlParse_grammar T xml of
        Inl e \<Rightarrow> Inl e
      | Inr g \<Rightarrow> (case build g xml of None \<Rightarrow> Inl TypeError | Some d \<Rightarrow> Inr d))"

text \<open>A VersionInfo expression for the examples: a space, then the given literal.\<close>

definition sample_version_info :: "string \<Rightarrow> regexp" where
  "sample_version_info lit s i =
     (i < length s \<and> s ! i = CHR '' '' \<and> take (length lit) (drop (Suc i) s) = lit)"

definition sample_xmltoken :: xmltoken where
  "sample_xmltoken =
     \<lparr> XML10_VERSION_INFO = sample_version_info ''version=\"1.0\"'',
       XML11_VERSION_INFO = sample_version_info ''version=\"1.1\"'' \<rparr>"

section \<open>xpath/xpath.ts: the parser\<close>

subsection \<open>Grammar symbols\<close>

text \<open>
  The token rules and the nonterminals are objects that the parser compares by identity.
  The names are those that \<^verbatim>\<open>xpath.ts\<close> imports from \<^verbatim>\<open>tokens.ts\<close> and
  \<^verbatim>\<open>xpath-grammar-rules.ts\<close>; \<open>Q_MM\<close>, \<open>Q_01\<close> and \<open>Q_1M\<close> are the quantifier marks of a
  pattern. The tag of a stack frame is a token rule or a nonterminal.
\<close>

datatype token =
    TOK_DIV | TOK_MOD | TOK_AND | TOK_OR | TOK_AT | TOK_DSLASH | TOK_SLASH | TOK_AXIS
  | TOK_DOLLAR | TOK_QNAME | TOK_DOT | TOK_DDOT | TOK_AXISNAME | TOK_ASTERISK | TOK_NCNAME
  | TOK_COLON | TOK_NODEO | TOK_PARENC | TOK_BRACKC | TOK_BRACKO | TOK_PARENO | TOK_COMMA
  | TOK_PIPE | TOK_MINUS | TOK_EQ | TOK_NEQ | TOK_LT | TOK_LE | TOK_GT | TOK_GE | TOK_PLUS
  | TOK_LITERALQ | TOK_LITERALQQ | TOK_NUMBER

datatype nonterm =
    XPathLocationPath | XPathRelativeLocationPath | XPathAbsoluteLocationPath | XPathStep
  | XPathNodeTest | XPathPredicate | XPathLiteral | XPathExpr | XPathPrimaryExpr
  | XPathVariableReference | XPathNumber | XPathFunctionCall | XPathArgumentRemainder
  | XPathPathExpr | XPathUnionExpr | XPathFilterExpr | XPathDigits

datatype symbol = Tok token | NT nonterm | Q_MM | Q_01 | Q_1M

subsection \<open>Semantic values\<close>

text \<open>
  Modelled from the spec: the expression and node-test classes (\<^verbatim>\<open>expressions/\<close> and
  \<^verbatim>\<open>node-tests/\<close> are not part of the sources). The constructors are the classes that
  the factory functions of \<^verbatim>\<open>xpath.ts\<close> instantiate, with the fields of the data model:
  a Location has its absolute flag and its steps, a Step its axis, node test and
  predicates, a function call its name and arguments. \<open>Array\<close> is the array that a
  quantified pattern element hands to a factory, \<open>Undefined\<close> the value a factory
  returns when its \<^verbatim>\<open>switch\<close> has no matching case.
\<close>

datatype nodetest =
    NodeTestAny | NodeTestElementOrAttribute | NodeTestNC string | NodeTestName string
  | NodeTestText | NodeTestComment | NodeTestPI string

datatype expr =
    TokenExpr string
  | NodeTest nodetest
  | LocationExpr bool "expr list"
  | StepExpr string expr "expr list"
  | PredicateExpr expr
  | PathExpr expr expr
  | FilterExpr expr "expr list"
  | UnionExpr expr expr
  | BinaryExpr expr expr expr
  | UnaryMinusExpr expr
  | LiteralExpr string
  | NumberExpr string
  | VariableExpr string
  | FunctionCallExpr expr "expr list"
  | Array "expr list"
  | Undefined

text \<open>
  Modelled from the spec: the methods appendStep, prependStep and appendPredicate and
  the field absolute of these classes, as operations on the lists of the data model.
  Called on a value that is not of the class, the method does not exist and the call
  raises a TypeError; \<open>token_value\<close> reads the field \<^verbatim>\<open>value\<close> of a TokenExpr, and
  \<open>array_items\<close> the elements of an array. The grammar hands \<open>set_absolute\<close>,
  \<open>token_value\<close> and \<open>array_items\<close> only a Location, a TokenExpr and an array; on
  any other value, where JavaScript would assign or read a property of whatever
  object it is given, they are given the TypeError of a read on \<^verbatim>\<open>undefined\<close>.
\<close>

definition appendStep :: "expr \<Rightarrow> expr \<Rightarrow> js_error + expr" where
  "appendStep loc s =
     (case loc of LocationExpr a steps \<Rightarrow> Inr (LocationExpr a (steps @ [s])) | _ \<Rightarrow> Inl TypeError)"

definition prependStep :: "expr \<Rightarrow> expr \<Rightarrow> js_error + expr" where
  "prependStep loc s =
     (case loc of LocationExpr a steps \<Rightarrow> Inr (LocationExpr a (s # steps)) | _ \<Rightarrow> Inl TypeError)"

definition appendPredicate :: "expr \<Rightarrow> expr \<Rightarrow> js_error + expr" where
  "appendPredicate step p =
     (case step of StepExpr ax nt ps \<Rightarrow> Inr (StepExpr ax nt (ps @ [p])) | _ \<Rightarrow> Inl TypeError)"

definition set_absolute :: "expr \<Rightarrow> js_error + expr" where
  "set_absolute rel =
     (case rel of LocationExpr a steps \<Rightarrow> Inr (LocationExpr True steps) | _ \<Rightarrow> Inl TypeError)"

definition token_value :: "expr \<Rightarrow> js_error + string" where
  "token_value e = (case e of TokenExpr m \<Rightarrow> Inr m | _ \<Rightarrow> Inl TypeError)"

definition array_items :: "expr \<Rightarrow> js_error + expr list" where
  "array_items e = (case e of Array xs \<Rightarrow> Inr xs | _ \<Rightarrow> Inl TypeError)"

text \<open>
  \<^verbatim>\<open>s.substring(a, b)\<close>: both indices are clamped to the length of the string and
  swapped when the first is the larger. \<^verbatim>\<open>x || d\<close> on an optional string is \<open>d\<close> when
  \<open>x\<close> is undefined or empty.
\<close>

definition substring :: "string \<Rightarrow> nat \<Rightarrow> nat \<Rightarrow> string" where
  "substring s a b =
     take (max (min a (length s)) (min b (length s)) - min (min a (length s)) (min b (length s)))
       (drop (min (min a (length s)) (min b (length s))) s)"

definition or_default :: "string option \<Rightarrow> string \<Rightarrow> string" where
  "or_default axis d = (case axis of None \<Rightarrow> d | Some a \<Rightarrow> if a = [] then d else a)"

subsection \<open>The factory functions\<close>

text \<open>
  Lines 263--454. Each factory receives the semantic values of the matched stack frames
  and returns the semantic value of the new frame. The parameters keep their names.
\<close>

definition makeTokenExpr :: "string \<Rightarrow> expr" where
  "makeTokenExpr m = TokenExpr m"

definition makeAbbrevStep :: "string \<Rightarrow> expr" where
  "makeAbbrevStep abbrev =
     (if abbrev = ''//'' then StepExpr ''descendant-or-self'' (NodeTest NodeTestAny) []
      else if abbrev = ''.'' then StepExpr ''self'' (NodeTest NodeTestAny) []
      else if abbrev = ''..'' then StepExpr ''parent'' (NodeTest NodeTestAny) []
      else Undefined)"

definition passExpr :: "expr \<Rightarrow> js_error + expr" where
  "passExpr e = Inr e"

definition makeLocationExpr1 :: "expr \<Rightarrow> expr \<Rightarrow> js_error + expr" where
  "makeLocationExpr1 slash rel = set_absolute rel"

definition makeLocationExpr2 :: "expr \<Rightarrow> expr \<Rightarrow> js_error + expr" where
  "makeLocationExpr2 dslash rel =
     bindE (set_absolute rel) (\<lambda>rel.
     bindE (token_value dslash) (\<lambda>v. prependStep rel (makeAbbrevStep v)))"

definition makeLocationExpr3 :: "js_error + expr" where
  "makeLocationExpr3 =
     bindE (appendStep (LocationExpr False []) (makeAbbrevStep ''.'')) set_absolute"

definition makeLocationExpr4 :: "expr \<Rightarrow> js_error + expr" where
  "makeLocationExpr4 dslash =
     bindE (set_absolute (LocationExpr False [])) (\<lambda>ret.
     bindE (token_value dslash) (\<lambda>v. appendStep ret (makeAbbrevStep v)))"

definition makeLocationExpr5 :: "expr \<Rightarrow> js_error + expr" where
  "makeLocationExpr5 step = appendStep (LocationExpr False []) step"

definition makeLocationExpr6 :: "expr \<Rightarrow> expr \<Rightarrow> expr \<Rightarrow> js_error + expr" where
  "makeLocationExpr6 rel slash step = appendStep rel step"

definition makeLocationExpr7 :: "expr \<Rightarrow> expr \<Rightarrow> expr \<Rightarrow> js_error + expr" where
  "makeLocationExpr7 rel dslash step =
     bindE (token_value dslash) (\<lambda>v.
     bindE (appendStep rel (makeAbbrevStep v)) (\<lambda>rel. appendStep rel step))"

definition makeStepExpr1 :: "expr \<Rightarrow> js_error + expr" where
  "makeStepExpr1 dot = bindE (token_value dot) (\<lambda>v. Inr (makeAbbrevStep v))"

definition makeStepExpr2 :: "expr \<Rightarrow> js_error + expr" where
  "makeStepExpr2 ddot = bindE (token_value ddot) (\<lambda>v. Inr (makeAbbrevStep v))"

definition makeStepExpr3 :: "expr \<Rightarrow> expr \<Rightarrow> expr \<Rightarrow> js_error + expr" where
  "makeStepExpr3 axisname axis nodeTest =
     bindE (token_value axisname) (\<lambda>v. Inr (StepExpr v nodeTest []))"

definition makeStepExpr4 :: "expr \<Rightarrow> expr \<Rightarrow> js_error + expr" where
  "makeStepExpr4 at nodeTest = Inr (StepExpr ''attribute'' nodeTest [])"

definition makeStepExpr5 :: "expr \<Rightarrow> string option \<Rightarrow> js_error + expr" where
  "makeStepExpr5 nodeTest axis =
     Inr (StepExpr (or_default axis ''child'') nodeTest [])"

definition makeStepExpr6 :: "expr \<Rightarrow> expr \<Rightarrow> js_error + expr" where
  "makeStepExpr6 step predicate = appendPredicate step predicate"

definition makeNodeTestExpr1 :: "js_error + expr" where
  "makeNodeTestExpr1 = Inr (NodeTest NodeTestElementOrAttribute)"

definition makeNodeTestExpr2 :: "expr \<Rightarrow> js_error + expr" where
  "makeNodeTestExpr2 ncname = bindE (token_value ncname) (\<lambda>v. Inr (NodeTest (NodeTestNC v)))"

definition makeNodeTestExpr3 :: "expr \<Rightarrow> js_error + expr" where
  "makeNodeTestExpr3 qname = bindE (token_value qname) (\<lambda>v. Inr (NodeTest (NodeTestName v)))"

text \<open>
  \<^verbatim>\<open>value.replace(/\s*\($/, '')\<close>: an opening parenthesis at the end, and the white
  space before it, are removed. \<open>is_space\<close> is the class \<^verbatim>\<open>\s\<close> on the characters
  of one byte.
\<close>

definition is_space :: "char \<Rightarrow> bool" where
  "is_space c = (c \<in> set [CHR '' '', CHR 0x09, CHR 0x0A, CHR 0x0B, CHR 0x0C, CHR 0x0D, CHR 0xA0])"

definition strip_paren :: "string \<Rightarrow> string" where
  "strip_paren v =
     (if v \<noteq> [] \<and> last v = CHR ''('' then rev (dropWhile is_space (rev (butlast v))) else v)"

definition makeNodeTestExpr4 :: "expr \<Rightarrow> js_error + expr" where
  "makeNodeTestExpr4 typeo =
     bindE (token_value typeo) (\<lambda>v.
       let type = strip_paren v in
       Inr (if type = ''node'' then NodeTest NodeTestAny
            else if type = ''text'' then NodeTest NodeTestText
            else if type = ''comment'' then NodeTest NodeTestComment
            else if type = ''processing-instruction'' then NodeTest (NodeTestPI [])
            else Undefined))"

text \<open>
  makeNodeTestExpr5 calls \<^verbatim>\<open>typeo.replace\<close> on its first argument itself, not on its
  field \<^verbatim>\<open>value\<close> as makeNodeTestExpr4 does. The argument is the semantic value of a
  token frame, a TokenExpr, which has no such method: the call raises a TypeError.
\<close>

definition makeNodeTestExpr5 :: "expr \<Rightarrow> expr \<Rightarrow> js_error + expr" where
  "makeNodeTestExpr5 typeo target = Inl TypeError"

definition makePredicateExpr :: "expr \<Rightarrow> expr \<Rightarrow> js_error + expr" where
  "makePredicateExpr pareno e = Inr (PredicateExpr e)"

definition makePrimaryExpr :: "expr \<Rightarrow> expr \<Rightarrow> js_error + expr" where
  "makePrimaryExpr pareno e = Inr e"

definition makeFunctionCallExpr1 :: "expr \<Rightarrow> js_error + expr" where
  "makeFunctionCallExpr1 name = Inr (FunctionCallExpr name [])"

definition makeFunctionCallExpr2 :: "expr \<Rightarrow> expr \<Rightarrow> expr \<Rightarrow> expr \<Rightarrow> js_error + expr" where
  "makeFunctionCallExpr2 name pareno arg1 args =
     bindE (array_items args) (\<lambda>xs. Inr (FunctionCallExpr name (arg1 # xs)))"

definition makeArgumentExpr :: "expr \<Rightarrow> expr \<Rightarrow> js_error + expr" where
  "makeArgumentExpr comma e = Inr e"

definition makeUnionExpr :: "expr \<Rightarrow> expr \<Rightarrow> expr \<Rightarrow> js_error + expr" where
  "makeUnionExpr expr1 pipe expr2 = Inr (UnionExpr expr1 expr2)"

definition makePathExpr1 :: "expr \<Rightarrow> expr \<Rightarrow> expr \<Rightarrow> js_error + expr" where
  "makePathExpr1 fexpr slash rel = Inr (PathExpr fexpr rel)"

definition makePathExpr2 :: "expr \<Rightarrow> expr \<Rightarrow> expr \<Rightarrow> js_error + expr" where
  "makePathExpr2 fexpr dslash rel =
     bindE (token_value dslash) (\<lambda>v.
     bindE (prependStep rel (makeAbbrevStep v)) (\<lambda>rel. Inr (PathExpr fexpr rel)))"

definition makeFilterExpr :: "expr \<Rightarrow> expr \<Rightarrow> js_error + expr" where
  "makeFilterExpr e predicates =
     bindE (array_items predicates) (\<lambda>ps.
       if length ps > 0 then Inr (FilterExpr e ps) else Inr e)"

definition makeUnaryMinusExpr :: "expr \<Rightarrow> expr \<Rightarrow> js_error + expr" where
  "makeUnaryMinusExpr minus_tok e = Inr (UnaryMinusExpr e)"

definition makeBinaryExpr :: "expr \<Rightarrow> expr \<Rightarrow> expr \<Rightarrow> js_error + expr" where
  "makeBinaryExpr expr1 op expr2 = Inr (BinaryExpr expr1 op expr2)"

definition makeLiteralExpr :: "expr \<Rightarrow> js_error + expr" where
  "makeLiteralExpr token =
     bindE (token_value token) (\<lambda>v. Inr (LiteralExpr (substring v 1 (length v - 1))))"

definition makeNumberExpr :: "expr \<Rightarrow> js_error + expr" where
  "makeNumberExpr token = bindE (token_value token) (\<lambda>v. Inr (NumberExpr v))"

definition makeVariableReference :: "expr \<Rightarrow> expr \<Rightarrow> js_error + expr" where
  "makeVariableReference dollar name = bindE (token_value name) (\<lambda>v. Inr (VariableExpr v))"

text \<open>
  The fourth column of a grammar rule names its factory; \<^verbatim>\<open>rule[3].apply(this, args)\<close>
  passes the arguments by position, and a parameter without an argument is
  \<^verbatim>\<open>undefined\<close>.
\<close>

datatype action =
    PassExpr | MakeLocationExpr1 | MakeLocationExpr2 | MakeLocationExpr3 | MakeLocationExpr4
  | MakeLocationExpr5 | MakeLocationExpr6 | MakeLocationExpr7 | MakeStepExpr1 | MakeStepExpr2
  | MakeStepExpr3 | MakeStepExpr4 | MakeStepExpr5 | MakeStepExpr6 | MakeNodeTestExpr1
  | MakeNodeTestExpr2 | MakeNodeTestExpr3 | MakeNodeTestExpr4 | MakeNodeTestExpr5
  | MakePredicateExpr | MakePrimaryExpr | MakeFunctionCallExpr1 | MakeFunctionCallExpr2
  | MakeArgumentExpr | MakeUnionExpr | MakePathExpr1 | MakePathExpr2 | MakeFilterExpr
  | MakeUnaryMinusExpr | MakeBinaryExpr | MakeLiteralExpr | MakeNumberExpr
  | MakeVariableReference

definition arg :: "expr list \<Rightarrow> nat \<Rightarrow> expr" where
  "arg args i = (if i < length args then args ! i else Undefined)"

fun apply_action :: "action \<Rightarrow> expr list \<Rightarrow> js_error + expr" where
  "apply_action PassExpr a = passExpr (arg a 0)"
| "apply_action MakeLocationExpr1 a = makeLocationExpr1 (arg a 0) (arg a 1)"
| "apply_action MakeLocationExpr2 a = makeLocationExpr2 (arg a 0) (arg a 1)"
| "apply_action MakeLocationExpr3 a = makeLocationExpr3"
| "apply_action MakeLocationExpr4 a = makeLocationExpr4 (arg a 0)"
| "apply_action MakeLocationExpr5 a = makeLocationExpr5 (arg a 0)"
| "apply_action MakeLocationExpr6 a = makeLocationExpr6 (arg a 0) (arg a 1) (arg a 2)"
| "apply_action MakeLocationExpr7 a = makeLocationExpr7 (arg a 0) (arg a 1) (arg a 2)"
| "apply_action MakeStepExpr1 a = makeStepExpr1 (arg a 0)"
| "apply_action MakeStepExpr2 a = makeStepExpr2 (arg a 0)"
| "apply_action MakeStepExpr3 a = makeStepExpr3 (arg a 0) (arg a 1) (arg a 2)"
| "apply_action MakeStepExpr4 a = makeStepExpr4 (arg a 0) (arg a 1)"
| "apply_action MakeStepExpr5 a = makeStepExpr5 (arg a 0) None"
| "apply_action MakeStepExpr6 a = makeStepExpr6 (arg a 0) (arg a 1)"
| "apply_action MakeNodeTestExpr1 a = makeNodeTestExpr1"
| "apply_action MakeNodeTestExpr2 a = makeNodeTestExpr2 (arg a 0)"
| "apply_action MakeNodeTestExpr3 a = makeNodeTestExpr3 (arg a 0)"
| "apply_action MakeNodeTestExpr4 a = makeNodeTestExpr4 (arg a 0)"
| "apply_action MakeNodeTestExpr5 a = makeNodeTestExpr5 (arg a 0) (arg a 1)"
| "apply_action MakePredicateExpr a = makePredicateExpr (arg a 0) (arg a 1)"
| "apply_action MakePrimaryExpr a = makePrimaryExpr (arg a 0) (arg a 1)"
| "apply_action MakeFunctionCallExpr1 a = makeFunctionCallExpr1 (arg a 0)"
| "apply_action MakeFunctionCallExpr2 a =
     makeFunctionCallExpr2 (arg a 0) (arg a 1) (arg a 2) (arg a 3)"
| "apply_action MakeArgumentExpr a = makeArgumentExpr (arg a 0) (arg a 1)"
| "apply_action MakeUnionExpr a = makeUnionExpr (arg a 0) (arg a 1) (arg a 2)"
| "apply_action MakePathExpr1 a = makePathExpr1 (arg a 0) (arg a 1) (arg a 2)"
| "apply_action MakePathExpr2 a = makePathExpr2 (arg a 0) (arg a 1) (arg a 2)"
| "apply_action MakeFilterExpr a = makeFilterExpr (arg a 0) (arg a 1)"
| "apply_action MakeUnaryMinusExpr a = makeUnaryMinusExpr (arg a 0) (arg a 1)"
| "apply_action MakeBinaryExpr a = makeBinaryExpr (arg a 0) (arg a 1) (arg a 2)"
| "apply_action MakeLiteralExpr a = makeLiteralExpr (arg a 0)"
| "apply_action MakeNumberExpr a = makeNumberExpr (arg a 0)"
| "apply_action MakeVariableReference a = makeVariableReference (arg a 0) (arg a 1)"

subsection \<open>The productions of the grammar\<close>

text \<open>
  Lines 159--242: target nonterminal, pattern, precedence, factory. The fifth column
  that some rules carry (\<^verbatim>\<open>ASSOC_LEFT\<close>) is never read by \<^verbatim>\<open>xpath.ts\<close>, which
  takes associativity from the field \<^verbatim>\<open>left\<close> of the lookahead token.
\<close>

record rule =
  target :: symbol
  pattern :: "symbol list"
  rprec :: int
  action :: action

definition mk :: "nonterm \<Rightarrow> symbol list \<Rightarrow> int \<Rightarrow> action \<Rightarrow> rule" where
  "mk t p n a = \<lparr> target = NT t, pattern = p, rprec = n, action = a \<rparr>"

definition xPathGrammarRules :: "rule list" where
  "xPathGrammarRules = [
     mk XPathLocationPath [NT XPathRelativeLocationPath] 18 PassExpr,
     mk XPathLocationPath [NT XPathAbsoluteLocationPath] 18 PassExpr,

     mk XPathAbsoluteLocationPath [Tok TOK_SLASH, NT XPathRelativeLocationPath] 18 MakeLocationExpr1,
     mk XPathAbsoluteLocationPath [Tok TOK_DSLASH, NT XPathRelativeLocationPath] 18 MakeLocationExpr2,

     mk XPathAbsoluteLocationPath [Tok TOK_SLASH] 0 MakeLocationExpr3,
     mk XPathAbsoluteLocationPath [Tok TOK_DSLASH] 0 MakeLocationExpr4,

     mk XPathRelativeLocationPath [NT XPathStep] 31 MakeLocationExpr5,
     mk XPathRelativeLocationPath [NT XPathRelativeLocationPath, Tok TOK_SLASH, NT XPathStep] 31
       MakeLocationExpr6,
     mk XPathRelativeLocationPath [NT XPathRelativeLocationPath, Tok TOK_DSLASH, NT XPathStep] 31
       MakeLocationExpr7,

     mk XPathStep [Tok TOK_DOT] 33 MakeStepExpr1,
     mk XPathStep [Tok TOK_DDOT] 33 MakeStepExpr2,
     mk XPathStep [Tok TOK_AXISNAME, Tok TOK_AXIS, NT XPathNodeTest] 33 MakeStepExpr3,
     mk XPathStep [Tok TOK_AT, NT XPathNodeTest] 33 MakeStepExpr4,
     mk XPathStep [NT XPathNodeTest] 33 MakeStepExpr5,
     mk XPathStep [NT XPathStep, NT XPathPredicate] 33 MakeStepExpr6,

     mk XPathNodeTest [Tok TOK_ASTERISK] 33 MakeNodeTestExpr1,
     mk XPathNodeTest [Tok TOK_NCNAME, Tok TOK_COLON, Tok TOK_ASTERISK] 33 MakeNodeTestExpr2,
     mk XPathNodeTest [Tok TOK_QNAME] 33 MakeNodeTestExpr3,
     mk XPathNodeTest [Tok TOK_NODEO, Tok TOK_PARENC] 33 MakeNodeTestExpr4,
     mk XPathNodeTest [Tok TOK_NODEO, NT XPathLiteral, Tok TOK_PARENC] 33 MakeNodeTestExpr5,

     mk XPathPredicate [Tok TOK_BRACKO, NT XPathExpr, Tok TOK_BRACKC] 33 MakePredicateExpr,

     mk XPathPrimaryExpr [NT XPathVariableReference] 33 PassExpr,
     mk XPathPrimaryExpr [Tok TOK_PARENO, NT XPathExpr, Tok TOK_PARENC] 33 MakePrimaryExpr,
     mk XPathPrimaryExpr [NT XPathLiteral] 30 PassExpr,
     mk XPathPrimaryExpr [NT XPathNumber] 30 PassExpr,
     mk XPathPrimaryExpr [NT XPathFunctionCall] 31 PassExpr,

     mk XPathFunctionCall [Tok TOK_QNAME, Tok TOK_PARENO, Tok TOK_PARENC] (- 1)
       MakeFunctionCallExpr1,
     mk XPathFunctionCall
       [Tok TOK_QNAME, Tok TOK_PARENO, NT XPathExpr, NT XPathArgumentRemainder, Q_MM,
        Tok TOK_PARENC] (- 1) MakeFunctionCallExpr2,
     mk XPathArgumentRemainder [Tok TOK_COMMA, NT XPathExpr] (- 1) MakeArgumentExpr,

     mk XPathUnionExpr [NT XPathPathExpr] 20 PassExpr,
     mk XPathUnionExpr [NT XPathUnionExpr, Tok TOK_PIPE, NT XPathPathExpr] 20 MakeUnionExpr,

     mk XPathPathExpr [NT XPathLocationPath] 20 PassExpr,
     mk XPathPathExpr [NT XPathFilterExpr] 19 PassExpr,
     mk XPathPathExpr [NT XPathFilterExpr, Tok TOK_SLASH, NT XPathRelativeLocationPath] 19
       MakePathExpr1,
     mk XPathPathExpr [NT XPathFilterExpr, Tok TOK_DSLASH, NT XPathRelativeLocationPath] 19
       MakePathExpr2,

     mk XPathFilterExpr [NT XPathPrimaryExpr, NT XPathPredicate, Q_MM] 31 MakeFilterExpr,

     mk XPathExpr [NT XPathPrimaryExpr] 16 PassExpr,
     mk XPathExpr [NT XPathUnionExpr] 16 PassExpr,

     mk XPathExpr [Tok TOK_MINUS, NT XPathExpr] (- 1) MakeUnaryMinusExpr,

     mk XPathExpr [NT XPathExpr, Tok TOK_OR, NT XPathExpr] (- 1) MakeBinaryExpr,
     mk XPathExpr [NT XPathExpr, Tok TOK_AND, NT XPathExpr] (- 1) MakeBinaryExpr,

     mk XPathExpr [NT XPathExpr, Tok TOK_EQ, NT XPathExpr] (- 1) MakeBinaryExpr,
     mk XPathExpr [NT XPathExpr, Tok TOK_NEQ, NT XPathExpr] (- 1) MakeBinaryExpr,

     mk XPathExpr [NT XPathExpr, Tok TOK_LT, NT XPathExpr] (- 1) MakeBinaryExpr,
     mk XPathExpr [NT XPathExpr, Tok TOK_LE, NT XPathExpr] (- 1) MakeBinaryExpr,
     mk XPathExpr [NT XPathExpr, Tok TOK_GT, NT XPathExpr] (- 1) MakeBinaryExpr,
     mk XPathExpr [NT XPathExpr, Tok TOK_GE, NT XPathExpr] (- 1) MakeBinaryExpr,

     mk XPathExpr [NT XPathExpr, Tok TOK_PLUS, NT XPathExpr] (- 1) MakeBinaryExpr,
     mk XPathExpr [NT XPathExpr, Tok TOK_MINUS, NT XPathExpr] (- 1) MakeBinaryExpr,

     mk XPathExpr [NT XPathExpr, Tok TOK_ASTERISK, NT XPathExpr] (- 1) MakeBinaryExpr,
     mk XPathExpr [NT XPathExpr, Tok TOK_DIV, NT XPathExpr] (- 1) MakeBinaryExpr,
     mk XPathExpr [NT XPathExpr, Tok TOK_MOD, NT XPathExpr] (- 1) MakeBinaryExpr,

     mk XPathLiteral [Tok TOK_LITERALQ] (- 1) MakeLiteralExpr,
     mk XPathLiteral [Tok TOK_LITERALQQ] (- 1) MakeLiteralExpr,

     mk XPathNumber [Tok TOK_NUMBER] (- 1) MakeNumberExpr,

     mk XPathVariableReference [Tok TOK_DOLLAR, Tok TOK_QNAME] 200 MakeVariableReference
   ]"

subsection \<open>The token table and the stack frames\<close>

text \<open>
  \<^verbatim>\<open>tokens.ts\<close> is not part of the sources, so the token table is a parameter of the
  parser: the list \<open>xPathTokenRules\<close> in its order, and for each rule what the parser
  reads of it. \<open>re_of P t e\<close> is \<^verbatim>\<open>t.re.exec(e)\<close>: \<open>None\<close> for \<^verbatim>\<open>null\<close>, and
  \<open>Some n\<close> when the expression, which is anchored at the start of the input, matches
  its first \<open>n\<close> characters. \<open>prec_of\<close> is the field \<^verbatim>\<open>prec\<close>, which a rule may
  lack, \<open>left_of\<close> the field \<^verbatim>\<open>left\<close> and \<open>label_of\<close> the field \<^verbatim>\<open>label\<close>; the last
  two are read of nonterminals as well.

  A stack frame carries the tag, the precedence and the semantic value. Its field
  \<^verbatim>\<open>match\<close> is only read while the frame is built and is left out.
\<close>

record tokens =
  xPathTokenRules :: "token list"
  re_of :: "token \<Rightarrow> string \<Rightarrow> nat option"
  prec_of :: "symbol \<Rightarrow> int option"
  left_of :: "symbol \<Rightarrow> bool"
  label_of :: "symbol \<Rightarrow> string"

record frame =
  tag :: symbol
  prec :: int
  expr :: expr

subsection \<open>The lexer\<close>

text \<open>
  Lines 643--688. The loop takes the first rule of the table whose match is not empty
  and leaves the loop; an operator keyword becomes a QName after one of five tokens or
  at the start.
\<close>

definition exec :: "tokens \<Rightarrow> token \<Rightarrow> string \<Rightarrow> string option" where
  "exec P t expression = map_option (\<lambda>n. take n expression) (re_of P t expression)"

fun first_match :: "tokens \<Rightarrow> token list \<Rightarrow> string \<Rightarrow> (token \<times> string) option" where
  "first_match P [] expression = None"
| "first_match P (t # ts) expression =
     (case exec P t expression of
        None \<Rightarrow> first_match P ts expression
      | Some result \<Rightarrow>
          if length result > 0 then Some (t, result) else first_match P ts expression)"

definition findXPathRuleForExpression ::
  "tokens \<Rightarrow> string \<Rightarrow> frame option \<Rightarrow> token option \<times> string" where
  "findXPathRuleForExpression P expression previous =
     (case first_match P (xPathTokenRules P) expression of
        None \<Rightarrow> (None, [])
      | Some (rule, match) \<Rightarrow>
          if (rule = TOK_DIV \<or> rule = TOK_MOD \<or> rule = TOK_AND \<or> rule = TOK_OR) \<and>
             (case previous of
                None \<Rightarrow> True
              | Some prev \<Rightarrow>
                  tag prev = Tok TOK_AT \<or> tag prev = Tok TOK_DSLASH \<or> tag prev = Tok TOK_SLASH \<or>
                  tag prev = Tok TOK_AXIS \<or> tag prev = Tok TOK_DOLLAR)
          then (Some TOK_QNAME, match)
          else (Some rule, match))"

subsection \<open>Matching a pattern against the stack\<close>

text \<open>
  Lines 570--635. The loop walks the pattern and the stack from their ends, so
  \<open>match_loop\<close> takes both reversed; it returns the match and
  \<^verbatim>\<open>match.matchlength\<close>, or \<open>None\<close> where the source returns the empty array. A
  quantifier mark stands after the symbol it applies to. \<open>Q_01\<close> takes up to two
  frames, as the test \<^verbatim>\<open>ds < 2\<close> of the source does. The helpers
  \<^verbatim>\<open>reverseInPlace\<close> and \<^verbatim>\<open>mapExpr\<close> of \<^verbatim>\<open>dom/util\<close> are taken to be list reversal
  and map.
\<close>

datatype melem = One frame | Many "frame list"

fun melem_expr :: "melem \<Rightarrow> expr" where
  "melem_expr (One f) = expr f"
| "melem_expr (Many fs) = Array (map expr fs)"

definition qmatch_of :: "symbol \<Rightarrow> frame list \<Rightarrow> frame list" where
  "qmatch_of x st = takeWhile (\<lambda>g. tag g = x) st"

definition many :: "frame list \<Rightarrow> melem list \<times> nat \<Rightarrow> melem list \<times> nat" where
  "many qmatch r = (Many (rev qmatch) # fst r, length qmatch + snd r)"

definition one :: "frame \<Rightarrow> melem list \<times> nat \<Rightarrow> melem list \<times> nat" where
  "one f r = (One f # fst r, Suc (snd r))"

fun match_loop :: "symbol list \<Rightarrow> frame list \<Rightarrow> (melem list \<times> nat) option" where
  "match_loop [] st = Some ([], 0)"
| "match_loop (x # ps) [] = None"
| "match_loop [Q_MM] (f # st) = None"
| "match_loop (Q_MM # x # ps) (f # st) =
     map_option (many (qmatch_of x (f # st)))
       (match_loop ps (drop (length (qmatch_of x (f # st))) (f # st)))"
| "match_loop [Q_01] (f # st) = None"
| "match_loop (Q_01 # x # ps) (f # st) =
     map_option (many (qmatch_of x (take 2 (f # st))))
       (match_loop ps (drop (length (qmatch_of x (take 2 (f # st)))) (f # st)))"
| "match_loop [Q_1M] (f # st) = None"
| "match_loop (Q_1M # x # ps) (f # st) =
     (if tag f = x then
        map_option (many (qmatch_of x (f # st)))
          (match_loop ps (drop (length (qmatch_of x (f # st))) (f # st)))
      else None)"
| "match_loop (x # ps) (f # st) =
     (if tag f = x then map_option (one f) (match_loop ps st) else None)"

definition xPathMatchStack :: "frame list \<Rightarrow> symbol list \<Rightarrow> (melem list \<times> nat) option" where
  "xPathMatchStack stack pat =
     map_option (\<lambda>(m, n). (rev m, n)) (match_loop (rev pat) (rev stack))"

subsection \<open>Precedence\<close>

text \<open>Lines 1122--1151, for a frame that has a rule.\<close>

definition xPathTokenPrecedence :: "tokens \<Rightarrow> symbol \<Rightarrow> int" where
  "xPathTokenPrecedence P s =
     (case prec_of P s of None \<Rightarrow> 2 | Some p \<Rightarrow> if p = 0 then 2 else p)"

definition xPathGrammarPrecedence :: "tokens \<Rightarrow> rule \<Rightarrow> int" where
  "xPathGrammarPrecedence P r =
     (if rprec r \<ge> 0 then rprec r
      else foldl (\<lambda>ret s. max ret (xPathTokenPrecedence P s)) 0 (pattern r))"

subsection \<open>xPathParseInit: keys and rule bins\<close>

text \<open>
  Lines 694--790. The rules are sorted by the length of their patterns, longest first
  (the sort is stable); nonterminals and token rules are numbered; each rule is pushed
  into the bin of the key of its last pattern symbol, and past a \<open>Q_MM\<close> or \<open>Q_01\<close>
  mark into the bin of the symbol before as well. A symbol that is in neither list has
  no key, and \<^verbatim>\<open>array[undefined]\<close> is one more bin. \<open>xPathRules P k\<close> is the bin of
  key \<open>k\<close>, empty where the source has \<^verbatim>\<open>undefined\<close>.
\<close>

definition xPathNonTerminals :: "nonterm list" where
  "xPathNonTerminals =
     [XPathLocationPath, XPathRelativeLocationPath, XPathAbsoluteLocationPath, XPathStep,
      XPathNodeTest, XPathPredicate, XPathLiteral, XPathExpr, XPathPrimaryExpr,
      XPathVariableReference, XPathNumber, XPathFunctionCall, XPathArgumentRemainder,
      XPathPathExpr, XPathUnionExpr, XPathFilterExpr, XPathDigits]"

fun last_index :: "'a list \<Rightarrow> 'a \<Rightarrow> nat option" where
  "last_index [] x = None"
| "last_index (y # ys) x =
     (case last_index ys x of
        Some i \<Rightarrow> Some (Suc i)
      | None \<Rightarrow> if y = x then Some 0 else None)"

definition tag_key :: "tokens \<Rightarrow> symbol \<Rightarrow> nat option" where
  "tag_key P s =
     (case s of
        NT n \<Rightarrow> map_option (\<lambda>i. 1 + i) (last_index xPathNonTerminals n)
      | Tok t \<Rightarrow>
          map_option (\<lambda>i. 1 + length xPathNonTerminals + i) (last_index (xPathTokenRules P) t)
      | _ \<Rightarrow> None)"

definition sorted_rules :: "rule list" where
  "sorted_rules = sort_key (\<lambda>r. - int (length (pattern r))) xPathGrammarRules"

fun bin_symbols :: "symbol list \<Rightarrow> symbol list" where
  "bin_symbols [] = []"
| "bin_symbols (Q_1M # x # ps) = [x]"
| "bin_symbols (Q_MM # x # ps) = x # bin_symbols ps"
| "bin_symbols (Q_01 # x # ps) = x # bin_symbols ps"
| "bin_symbols (x # ps) = [x]"

definition pushes :: "tokens \<Rightarrow> (nat option \<times> rule) list" where
  "pushes P =
     concat (map (\<lambda>r. map (\<lambda>s. (tag_key P s, r)) (bin_symbols (rev (pattern r)))) sorted_rules)"

definition xPathRules :: "tokens \<Rightarrow> nat option \<Rightarrow> rule list" where
  "xPathRules P k = map snd (filter (\<lambda>(k', r). k' = k) (pushes P))"

subsection \<open>xPathReduce\<close>

text \<open>
  Lines 899--989. \<open>find_candidate\<close> is the first half of xPathReduce, \<open>reduces\<close> the
  test of its \<^verbatim>\<open>if\<close>. The function returns the new stack and its boolean result, or
  the exception of the factory.
\<close>

record candidate =
  c_rule :: rule
  c_match :: "melem list"
  c_matchlength :: nat
  c_prec :: int

fun findGrammarRuleCandidate :: "tokens \<Rightarrow> rule list \<Rightarrow> frame list \<Rightarrow> candidate option" where
  "findGrammarRuleCandidate P [] stack = None"
| "findGrammarRuleCandidate P (r # ruleset) stack =
     (case xPathMatchStack stack (pattern r) of
        None \<Rightarrow> findGrammarRuleCandidate P ruleset stack
      | Some (m, n) \<Rightarrow>
          if length m > 0 then
            Some \<lparr> c_rule = r, c_match = m, c_matchlength = n,
                   c_prec = xPathGrammarPrecedence P r \<rparr>
          else findGrammarRuleCandidate P ruleset stack)"

definition find_candidate :: "tokens \<Rightarrow> frame list \<Rightarrow> candidate option" where
  "find_candidate P stack =
     (if length stack > 0
      then findGrammarRuleCandidate P (xPathRules P (tag_key P (tag (last stack)))) stack
      else None)"

definition reduces :: "tokens \<Rightarrow> candidate \<Rightarrow> frame option \<Rightarrow> bool" where
  "reduces P c ahead =
     (case ahead of
        None \<Rightarrow> True
      | Some a \<Rightarrow> c_prec c > prec a \<or> (left_of P (tag a) \<and> c_prec c \<ge> prec a))"

definition pop_n :: "nat \<Rightarrow> 'a list \<Rightarrow> 'a list" where
  "pop_n n stack = (butlast ^^ n) stack"

definition xPathReduce ::
  "tokens \<Rightarrow> frame list \<Rightarrow> frame option \<Rightarrow> js_error + (frame list \<times> bool)" where
  "xPathReduce P stack ahead =
     (case find_candidate P stack of
        Some c \<Rightarrow>
          if reduces P c ahead then
            bindE (apply_action (action (c_rule c)) (map melem_expr (c_match c))) (\<lambda>e.
              Inr (pop_n (c_matchlength c) stack
                     @ [\<lparr> tag = target (c_rule c), prec = c_prec c, expr = e \<rparr>], True))
          else Inr (case ahead of None \<Rightarrow> stack | Some a \<Rightarrow> stack @ [a], False)
      | None \<Rightarrow> Inr (case ahead of None \<Rightarrow> stack | Some a \<Rightarrow> stack @ [a], False))"

subsection \<open>The loops of xPathParse\<close>

text \<open>
  Lines 847--873. The inner loop calls xPathReduce until it returns false. It ends
  because a reduction either shortens the stack or replaces the top frame by one of a
  nonterminal of higher \<open>rank\<close>: the patterns that match a single frame are the unit
  rules and the FilterExpr rule without predicates. The outer loop ends because every
  token consumes at least one character.
\<close>

fun rank :: "symbol \<Rightarrow> nat" where
  "rank (NT XPathExpr) = 7"
| "rank (NT XPathUnionExpr) = 6"
| "rank (NT XPathPathExpr) = 5"
| "rank (NT XPathLocationPath) = 4"
| "rank (NT XPathRelativeLocationPath) = 3"
| "rank (NT XPathAbsoluteLocationPath) = 3"
| "rank (NT XPathFilterExpr) = 3"
| "rank (NT XPathStep) = 2"
| "rank (NT XPathPrimaryExpr) = 2"
| "rank (NT XPathNodeTest) = 1"
| "rank (NT XPathLiteral) = 1"
| "rank (NT XPathNumber) = 1"
| "rank (NT XPathVariableReference) = 1"
| "rank (NT XPathFunctionCall) = 1"
| "rank s = 0"

fun is_plain :: "symbol \<Rightarrow> bool" where
  "is_plain Q_MM = False"
| "is_plain Q_01 = False"
| "is_plain Q_1M = False"
| "is_plain s = True"

fun plain :: "symbol list \<Rightarrow> nat" where
  "plain [] = 0"
| "plain [x] = (if is_plain x then 1 else 0)"
| "plain (x # y # ps) = (if is_plain x then Suc (plain (y # ps)) else plain ps)"

definition decreasing :: "rule \<Rightarrow> bool" where
  "decreasing r =
     (2 \<le> plain (rev (pattern r)) \<or>
      (case rev (pattern r) of
         [x] \<Rightarrow> is_plain x \<and> rank x < rank (target r)
       | [q, y, x] \<Rightarrow> q = Q_MM \<and> is_plain x \<and> rank x < rank (target r)
       | _ \<Rightarrow> False))"

lemma rank_le: "rank s \<le> 7"
  by (induction s rule: rank.induct) simp_all

lemma qmatch_of_length [simp]: "length (qmatch_of x st) \<le> length st"
  by (simp add: qmatch_of_def length_takeWhile_le)

lemma match_loop_length: "match_loop ps st = Some (m, n) \<Longrightarrow> n \<le> length st"
proof (induction ps st arbitrary: m n rule: match_loop.induct)
  case (4 x ps f st)
  from qmatch_of_length [of x "f # st"] 4 show ?case
    by (auto simp: many_def)
next
  case (6 x ps f st)
  have "length (qmatch_of x (take 2 (f # st))) \<le> length (f # st)"
    using qmatch_of_length [of x "take 2 (f # st)"] by simp
  with 6 show ?case
    by (auto simp: many_def)
next
  case (8 x ps f st)
  from qmatch_of_length [of x "f # st"] 8 show ?case
    by (auto simp: many_def split: if_splits)
qed (auto split: if_splits simp: one_def)

lemma plain_Cons: "is_plain x \<Longrightarrow> plain (x # ps) = Suc (plain ps)"
  by (cases ps) simp_all

lemma match_loop_plain: "match_loop ps st = Some (m, n) \<Longrightarrow> plain ps \<le> n"
proof (induction ps st arbitrary: m n rule: match_loop.induct)
qed (auto split: if_splits simp: one_def many_def plain_Cons)

lemma match_loop_unit:
  assumes "match_loop [x] st = Some (m, n)" "is_plain x"
  shows "n = 1 \<and> st \<noteq> [] \<and> tag (hd st) = x"
  using assms by (cases st; cases x) (auto split: if_splits simp: one_def)

lemma match_loop_star:
  assumes "match_loop [Q_MM, y, x] st = Some (m, 1)" "is_plain x"
  shows "st \<noteq> [] \<and> tag (hd st) = x"
proof (cases st)
  case Nil
  with assms show ?thesis by simp
next
  case (Cons f st')
  let ?q = "qmatch_of y (f # st')"
  from assms(1) Cons obtain m' n' where
    r: "match_loop [x] (drop (length ?q) (f # st')) = Some (m', n')" and n: "length ?q + n' = 1"
    by (auto simp: many_def)
  from match_loop_unit [OF r assms(2)] n have "length ?q = 0" by simp
  with match_loop_unit [OF r assms(2)] Cons show ?thesis by simp
qed

lemma decreasing_grammar: "list_all decreasing xPathGrammarRules"
  by (simp add: xPathGrammarRules_def decreasing_def mk_def)

lemma decreasing_match:
  assumes "decreasing r" "xPathMatchStack stack (pattern r) = Some (m, n)"
  shows "2 \<le> n \<or> (n = 1 \<and> stack \<noteq> [] \<and> rank (tag (last stack)) < rank (target r))"
proof -
  from assms(2) obtain m' where ml: "match_loop (rev (pattern r)) (rev stack) = Some (m', n)"
    by (auto simp: xPathMatchStack_def)
  show ?thesis
  proof (cases "2 \<le> plain (rev (pattern r))")
    case True
    with match_loop_plain [OF ml] show ?thesis by simp
  next
    case False
    with assms(1) consider
      (unit) x where "rev (pattern r) = [x]" "is_plain x" "rank x < rank (target r)"
      | (star) y x where "rev (pattern r) = [Q_MM, y, x]" "is_plain x" "rank x < rank (target r)"
      by (auto simp: decreasing_def split: list.splits)
    then show ?thesis
    proof cases
      case unit
      with ml match_loop_unit [of x "rev stack" m' n] show ?thesis
        by (auto simp: hd_rev)
    next
      case star
      show ?thesis
      proof (cases "2 \<le> n")
        case True then show ?thesis by simp
      next
        case False
        from match_loop_plain [OF ml] star have "1 \<le> n" by simp
        with False have n1: "n = 1" by simp
        with ml star match_loop_star [of y x "rev stack" m'] show ?thesis
          by (auto simp: hd_rev)
      qed
    qed
  qed
qed


lemma pop_n_take: "pop_n n stack = take (length stack - n) stack"
  unfolding pop_n_def
proof (induction n)
  case 0
  show ?case by simp
next
  case (Suc n)
  have "butlast (take (length stack - n) stack) = take (length stack - Suc n) stack"
    by (cases "n = 0") (simp_all add: butlast_take butlast_conv_take)
  with Suc show ?case by simp
qed

lemma xPathRules_subset: "set (xPathRules P k) \<subseteq> set xPathGrammarRules"
  by (auto simp: xPathRules_def pushes_def sorted_rules_def)

lemma findGrammarRuleCandidate_Some:
  "findGrammarRuleCandidate P rs stack = Some c \<Longrightarrow>
     c_rule c \<in> set rs \<and>
     xPathMatchStack stack (pattern (c_rule c)) = Some (c_match c, c_matchlength c) \<and>
     c_match c \<noteq> [] \<and> c_prec c = xPathGrammarPrecedence P (c_rule c)"
  by (induction rs) (auto split: option.splits if_splits)

lemma find_candidate_Some:
  assumes "find_candidate P stack = Some c"
  shows "c_rule c \<in> set xPathGrammarRules"
    and "xPathMatchStack stack (pattern (c_rule c)) = Some (c_match c, c_matchlength c)"
    and "stack \<noteq> []"
  using assms findGrammarRuleCandidate_Some [of P _ stack c] xPathRules_subset [of P]
  by (auto simp: find_candidate_def split: if_splits)

definition reduce_measure :: "frame list \<Rightarrow> nat" where
  "reduce_measure stack = 8 * length stack + (7 - rank (tag (last stack)))"

lemma xPathReduce_decreases:
  assumes "xPathReduce P stack ahead = Inr (stack', True)"
  shows "reduce_measure stack' < reduce_measure stack"
proof -
  from assms obtain c e where
    c: "find_candidate P stack = Some c" and
    s': "stack' = pop_n (c_matchlength c) stack
           @ [\<lparr> tag = target (c_rule c), prec = c_prec c, expr = e \<rparr>]"
    by (auto simp: xPathReduce_def bindE_def split: option.splits if_splits sum.splits)
  let ?n = "c_matchlength c"
  from find_candidate_Some [OF c] decreasing_grammar
  have d: "decreasing (c_rule c)"
    and m: "xPathMatchStack stack (pattern (c_rule c)) = Some (c_match c, ?n)"
    and ne: "stack \<noteq> []"
    by (auto simp: list_all_iff)
  from m have le: "?n \<le> length stack"
    by (auto simp: xPathMatchStack_def dest: match_loop_length)
  have len: "length stack' = length stack - ?n + 1"
    by (simp add: s' pop_n_take)
  have top: "tag (last stack') = target (c_rule c)"
    by (simp add: s')
  from decreasing_match [OF d m] show ?thesis
  proof
    assume "2 \<le> ?n"
    with le len have "length stack' < length stack" by simp
    then show ?thesis
      unfolding reduce_measure_def using rank_le [of "tag (last stack)"] by simp
  next
    assume "?n = 1 \<and> stack \<noteq> [] \<and> rank (tag (last stack)) < rank (target (c_rule c))"
    then have "rank (tag (last stack)) < rank (target (c_rule c))" and "?n = 1"
      by simp_all
    with len top ne le rank_le [of "target (c_rule c)"] show ?thesis
      unfolding reduce_measure_def by simp
  qed
qed

text \<open>\<^verbatim>\<open>while (this.xPathReduce(stack, ahead))\<close>\<close>

function reduce_loop :: "tokens \<Rightarrow> frame list \<Rightarrow> frame option \<Rightarrow> js_error + frame list" where
  "reduce_loop P stack ahead =
     (case xPathReduce P stack ahead of
        Inl e \<Rightarrow> Inl e
      | Inr (stack', ret) \<Rightarrow> if ret then reduce_loop P stack' ahead else Inr stack')"
  by pat_completeness auto
termination
  by (relation "measure (\<lambda>(P, stack, ahead). reduce_measure stack)")
    (auto dest: xPathReduce_decreases)

lemma first_match_Some:
  "first_match P ts e = Some (t, m) \<Longrightarrow> m \<noteq> [] \<and> length m \<le> length e"
  by (induction ts) (auto simp: exec_def split: option.splits if_splits)

lemma findXPathRuleForExpression_Some:
  "findXPathRuleForExpression P e previous = (Some t, m) \<Longrightarrow> m \<noteq> [] \<and> length m \<le> length e"
  by (auto simp: findXPathRuleForExpression_def split: option.splits if_splits
      dest: first_match_Some)

text \<open>
  The frame of the token read: \<^verbatim>\<open>prec: rule.prec ? rule.prec : 0\<close>. One turn of the outer
  loop strips white space, reads a token with the previous token as context, and
  reduces; without a token it reduces with no lookahead and is done.
\<close>

definition ahead_frame :: "tokens \<Rightarrow> token \<Rightarrow> string \<Rightarrow> frame" where
  "ahead_frame P rule match =
     \<lparr> tag = Tok rule,
       prec = (case prec_of P (Tok rule) of None \<Rightarrow> 0 | Some p \<Rightarrow> p),
       expr = makeTokenExpr match \<rparr>"

function parse_loop ::
  "tokens \<Rightarrow> string \<Rightarrow> frame list \<Rightarrow> frame option \<Rightarrow> js_error + frame list" where
  "parse_loop P expression stack ahead =
     (case findXPathRuleForExpression P (dropWhile is_space expression) ahead of
        (Some rule, match) \<Rightarrow>
          (case reduce_loop P stack (Some (ahead_frame P rule match)) of
             Inl e \<Rightarrow> Inl e
           | Inr stack' \<Rightarrow>
               parse_loop P (drop (length match) (dropWhile is_space expression)) stack'
                 (Some (ahead_frame P rule match)))
      | (None, match) \<Rightarrow> reduce_loop P stack None)"
  by pat_completeness auto
termination
proof (relation "measure (\<lambda>(P, expression, stack, ahead). length expression)", goal_cases)
  case 1
  show ?case by simp
next
  case (2 P expression stack ahead x1 x2 rule x2a)
  have "length (dropWhile is_space expression) \<le> length expression"
    by (rule length_dropWhile_le)
  with 2 findXPathRuleForExpression_Some [of P "dropWhile is_space expression" ahead rule x2]
  show ?case by (cases x2) auto
qed

subsection \<open>stackToString\<close>

text \<open>Lines 498--507. The separator is added only when the result so far is not empty.\<close>

fun stackToString_loop :: "tokens \<Rightarrow> string \<Rightarrow> frame list \<Rightarrow> string" where
  "stackToString_loop P ret [] = ret"
| "stackToString_loop P ret (f # stack) =
     stackToString_loop P ((if ret \<noteq> [] then ret @ [CHR 0x0A] else ret) @ label_of P (tag f)) stack"

definition stackToString :: "tokens \<Rightarrow> frame list \<Rightarrow> string" where
  "stackToString P stack = stackToString_loop P [] stack"

subsection \<open>The fast paths\<close>

text \<open>
  Lines 463--496 and 822--834. \<open>matches_simple\<close> is \<^verbatim>\<open>/^(\$|@)?\w+$/i\<close> and
  \<open>matches_path\<close> is \<^verbatim>\<open>/^\w+(\/\w+)*$/i\<close>; \<open>js_split\<close> is \<^verbatim>\<open>String.prototype.split\<close>
  with a separator of one character. \<^verbatim>\<open>axis || xPathAxis.CHILD\<close> takes the default for
  \<^verbatim>\<open>undefined\<close> and for the empty string.
\<close>

definition char_in :: "char \<Rightarrow> char \<Rightarrow> char \<Rightarrow> bool" where
  "char_in lo hi c = ((of_char lo :: nat) \<le> of_char c \<and> (of_char c :: nat) \<le> of_char hi)"

definition is_digit :: "char \<Rightarrow> bool" where
  "is_digit c = char_in (CHR ''0'') (CHR ''9'') c"

definition is_word_char :: "char \<Rightarrow> bool" where
  "is_word_char c =
     (char_in (CHR ''a'') (CHR ''z'') c \<or> char_in (CHR ''A'') (CHR ''Z'') c \<or> is_digit c
      \<or> c = CHR ''_'')"

definition word :: "string \<Rightarrow> bool" where
  "word s = (s \<noteq> [] \<and> list_all is_word_char s)"

definition matches_simple :: "string \<Rightarrow> bool" where
  "matches_simple expression =
     (case expression of
        [] \<Rightarrow> False
      | c # cs \<Rightarrow> if c = CHR ''$'' \<or> c = CHR ''@'' then word cs else word expression)"

fun js_split :: "char \<Rightarrow> string \<Rightarrow> string list" where
  "js_split sep [] = [[]]"
| "js_split sep (c # cs) =
     (if c = sep then [] # js_split sep cs
      else (case js_split sep cs of [] \<Rightarrow> [[c]] | w # ws \<Rightarrow> (c # w) # ws))"

definition matches_path :: "string \<Rightarrow> bool" where
  "matches_path expression = list_all word (js_split CHR ''/'' expression)"

definition xPathAxis_CHILD :: string where
  "xPathAxis_CHILD = ''child''"

definition makeSimpleExpr :: "string \<Rightarrow> string option \<Rightarrow> js_error + expr" where
  "makeSimpleExpr expression axis =
     (if take 1 expression = ''$'' then Inr (VariableExpr (drop 1 expression))
      else if take 1 expression = ''@'' then
        appendStep (LocationExpr False [])
          (StepExpr ''attribute'' (NodeTest (NodeTestName (drop 1 expression))) [])
      else if expression \<noteq> [] \<and> list_all is_digit expression then Inr (NumberExpr expression)
      else
        appendStep (LocationExpr False [])
          (StepExpr (or_default axis xPathAxis_CHILD) (NodeTest (NodeTestName expression)) []))"

fun makeSimpleExpr2_loop :: "expr \<Rightarrow> string list \<Rightarrow> js_error + expr" where
  "makeSimpleExpr2_loop c [] = Inr c"
| "makeSimpleExpr2_loop c (s # steps) =
     bindE (appendStep c (StepExpr xPathAxis_CHILD (NodeTest (NodeTestName s)) []))
       (\<lambda>c. makeSimpleExpr2_loop c steps)"

definition makeSimpleExpr2 :: "string \<Rightarrow> js_error + expr" where
  "makeSimpleExpr2 e = makeSimpleExpr2_loop (LocationExpr False []) (js_split CHR ''/'' e)"

subsection \<open>xPathParse\<close>

text \<open>
  Lines 799--897. The state of the parser that the function changes is the cache; the
  function returns its result or exception and the new cache. The counters and the log
  are not modelled. \<open>axis_override\<close> is the \<^verbatim>\<open>if\<close> of lines 884--891.
\<close>

definition axis_override :: "string option \<Rightarrow> string \<Rightarrow> expr \<Rightarrow> js_error + expr" where
  "axis_override axis originalExpression result =
     (case axis of
        None \<Rightarrow> Inr result
      | Some ax \<Rightarrow>
          (case result of
             Undefined \<Rightarrow> Inl TypeError
           | LocationExpr absolute steps \<Rightarrow>
               if \<not> absolute \<and> take 1 originalExpression \<noteq> ''*'' then
                 (case steps of
                    [] \<Rightarrow> Inl TypeError
                  | Undefined # rest \<Rightarrow> Inl TypeError
                  | StepExpr a nt ps # rest \<Rightarrow> Inr (LocationExpr absolute (StepExpr ax nt ps # rest))
                  | s # rest \<Rightarrow> Inr result)
               else Inr result
           | _ \<Rightarrow> Inr result))"

text \<open>
  The cache is the plain object of line 245. xPathParse writes it with
  \<^verbatim>\<open>this.xPathParseCache[key] = value\<close> (lines 824, 831 and 893); xPathCacheLookup
  (lines 509--511) reads it, and its only call is commented out (lines 810--814). An
  object has its own properties and a prototype, which for \<^verbatim>\<open>{}\<close> is Object.prototype
  (\<open>None\<close> here). The assignment writes the own property \<open>key\<close>, except for the key
  \<^verbatim>\<open>__proto__\<close>: that name is an accessor of Object.prototype, whose setter makes a
  value that is an object the prototype of the cache, ignores \<^verbatim>\<open>undefined\<close>, and writes
  no own property. Every value of the type \<open>expr\<close> but \<open>Undefined\<close> is an object. A read
  looks in the own properties and then along the prototype chain, so that after the
  prototype is replaced the fields of the new prototype show under their names; reads
  are not modelled. The expression classes are taken to declare no accessor of their
  own.
\<close>

record cache =
  own_properties :: "string \<rightharpoonup> expr"
  prototype :: "expr option"

definition empty_cache :: cache where
  "empty_cache = \<lparr> own_properties = Map.empty, prototype = None \<rparr>"

definition cache_assign :: "cache \<Rightarrow> string \<Rightarrow> expr \<Rightarrow> cache" where
  "cache_assign c k v =
     (if k = ''__proto__'' then (if v = Undefined then c else c \<lparr> prototype := Some v \<rparr>)
      else c \<lparr> own_properties := (own_properties c)(k \<mapsto> v) \<rparr>)"

definition parse_error :: "tokens \<Rightarrow> string \<Rightarrow> frame list \<Rightarrow> js_error" where
  "parse_error P cachekey stack =
     Thrown (''XPath parse error '' @ cachekey @ '':'' @ [CHR 0x0A] @ stackToString P stack)"

text \<open>Every write of the cache is followed by the return of the value written.\<close>

definition cached :: "cache \<Rightarrow> string \<Rightarrow> js_error + expr \<Rightarrow> (js_error + expr) \<times> cache" where
  "cached c k r =
     (case r of Inl e \<Rightarrow> (Inl e, c) | Inr ret \<Rightarrow> (Inr ret, cache_assign c k ret))"

definition xPathParse ::
  "tokens \<Rightarrow> cache \<Rightarrow> string \<Rightarrow> string option \<Rightarrow> (js_error + expr) \<times> cache" where
  "xPathParse P xPathParseCache expression axis =
     (if matches_simple expression then
        cached xPathParseCache expression (makeSimpleExpr expression axis)
      else if matches_path expression then
        cached xPathParseCache expression (makeSimpleExpr2 expression)
      else
        (case parse_loop P expression [] None of
           Inl e \<Rightarrow> (Inl e, xPathParseCache)
         | Inr stack \<Rightarrow>
             if length stack \<noteq> 1 then (Inl (parse_error P expression stack), xPathParseCache)
             else cached xPathParseCache expression
                    (axis_override axis expression (expr (stack ! 0)))))"

subsection \<open>A sample token table\<close>

text \<open>
  A token table for the examples, with the token kinds of the lexer: literal tokens,
  operator keywords that end at a word boundary, names, numbers, quoted literals, axis
  names and node-type openers. Longer tokens stand before their prefixes, and the
  operator keywords before the names: the lexer turns a keyword into a QName after
  certain tokens, so the rule of the keyword is the one that is selected for it.
\<close>

definition re_lit :: "string \<Rightarrow> string \<Rightarrow> nat option" where
  "re_lit s e = (if take (length s) e = s then Some (length s) else None)"

definition re_keyword :: "string \<Rightarrow> string \<Rightarrow> nat option" where
  "re_keyword s e =
     (if take (length s) e = s \<and>
         (case drop (length s) e of [] \<Rightarrow> True | c # cs \<Rightarrow> \<not> is_word_char c)
      then Some (length s) else None)"

definition is_name_char :: "char \<Rightarrow> bool" where
  "is_name_char c = (is_word_char c \<or> c = CHR ''-'' \<or> c = CHR ''.'')"

definition re_name :: "string \<Rightarrow> nat option" where
  "re_name e =
     (case e of
        [] \<Rightarrow> None
      | c # cs \<Rightarrow>
          if is_word_char c \<and> \<not> is_digit c then Some (Suc (length (takeWhile is_name_char cs)))
          else None)"

definition re_number :: "string \<Rightarrow> nat option" where
  "re_number e =
     (let n = length (takeWhile is_digit e) in
      if n = 0 then None
      else (case drop n e of
              c # cs \<Rightarrow> if c = CHR ''.'' then Some (n + 1 + length (takeWhile is_digit cs))
                        else Some n
            | [] \<Rightarrow> Some n))"

definition re_quoted :: "char \<Rightarrow> string \<Rightarrow> nat option" where
  "re_quoted q e =
     (case e of
        [] \<Rightarrow> None
      | c # cs \<Rightarrow>
          if c = q \<and> q \<in> set cs then Some (length (takeWhile (\<lambda>d. d \<noteq> q) cs) + 2) else None)"

fun re_first :: "string list \<Rightarrow> string \<Rightarrow> nat option" where
  "re_first [] e = None"
| "re_first (s # ss) e = (case re_lit s e of Some n \<Rightarrow> Some n | None \<Rightarrow> re_first ss e)"

fun sample_re :: "token \<Rightarrow> string \<Rightarrow> nat option" where
  "sample_re TOK_DSLASH = re_lit ''//''"
| "sample_re TOK_SLASH = re_lit ''/''"
| "sample_re TOK_DDOT = re_lit ''..''"
| "sample_re TOK_DOT = re_lit ''.''"
| "sample_re TOK_AXISNAME =
     re_first [''ancestor-or-self'', ''ancestor'', ''attribute'', ''child'',
       ''descendant-or-self'', ''descendant'', ''following-sibling'', ''following'',
       ''namespace'', ''parent'', ''preceding-sibling'', ''preceding'', ''self'']"
| "sample_re TOK_COLON = re_lit '':''"
| "sample_re TOK_AXIS = re_lit ''::''"
| "sample_re TOK_PARENO = re_lit ''(''"
| "sample_re TOK_PARENC = re_lit '')''"
| "sample_re TOK_BRACKO = re_lit ''[''"
| "sample_re TOK_BRACKC = re_lit '']''"
| "sample_re TOK_AT = re_lit ''@''"
| "sample_re TOK_COMMA = re_lit '',''"
| "sample_re TOK_OR = re_keyword ''or''"
| "sample_re TOK_AND = re_keyword ''and''"
| "sample_re TOK_NEQ = re_lit ''!=''"
| "sample_re TOK_EQ = re_lit ''=''"
| "sample_re TOK_GE = re_lit ''>=''"
| "sample_re TOK_GT = re_lit ''>''"
| "sample_re TOK_LE = re_lit ''<=''"
| "sample_re TOK_LT = re_lit ''<''"
| "sample_re TOK_PLUS = re_lit ''+''"
| "sample_re TOK_MINUS = re_lit ''-''"
| "sample_re TOK_ASTERISK = re_lit ''*''"
| "sample_re TOK_PIPE = re_lit ''|''"
| "sample_re TOK_MOD = re_keyword ''mod''"
| "sample_re TOK_DIV = re_keyword ''div''"
| "sample_re TOK_LITERALQ = re_quoted (CHR 0x27)"
| "sample_re TOK_LITERALQQ = re_quoted (CHR 0x22)"
| "sample_re TOK_NUMBER = re_number"
| "sample_re TOK_QNAME = re_name"
| "sample_re TOK_NCNAME = re_name"
| "sample_re TOK_NODEO =
     re_first [''processing-instruction('', ''comment('', ''text('', ''node('']"
| "sample_re TOK_DOLLAR = re_lit ''$''"

fun sample_prec :: "symbol \<Rightarrow> int option" where
  "sample_prec (Tok TOK_PIPE) = Some 17"
| "sample_prec (Tok TOK_DSLASH) = Some 19"
| "sample_prec (Tok TOK_SLASH) = Some 30"
| "sample_prec (Tok TOK_AXIS) = Some 20"
| "sample_prec (Tok TOK_COLON) = Some 1000"
| "sample_prec (Tok TOK_PARENO) = Some 34"
| "sample_prec (Tok TOK_DDOT) = Some 34"
| "sample_prec (Tok TOK_DOT) = Some 34"
| "sample_prec (Tok TOK_AT) = Some 34"
| "sample_prec (Tok TOK_OR) = Some 10"
| "sample_prec (Tok TOK_AND) = Some 11"
| "sample_prec (Tok TOK_EQ) = Some 12"
| "sample_prec (Tok TOK_NEQ) = Some 12"
| "sample_prec (Tok TOK_GE) = Some 13"
| "sample_prec (Tok TOK_GT) = Some 13"
| "sample_prec (Tok TOK_LE) = Some 13"
| "sample_prec (Tok TOK_LT) = Some 13"
| "sample_prec (Tok TOK_PLUS) = Some 14"
| "sample_prec (Tok TOK_MINUS) = Some 14"
| "sample_prec (Tok TOK_DIV) = Some 15"
| "sample_prec (Tok TOK_MOD) = Some 15"
| "sample_prec (Tok TOK_ASTERISK) = Some 15"
| "sample_prec (Tok TOK_BRACKO) = Some 32"
| "sample_prec (Tok TOK_LITERALQ) = Some 20"
| "sample_prec (Tok TOK_LITERALQQ) = Some 20"
| "sample_prec (Tok TOK_NUMBER) = Some 35"
| "sample_prec s = None"

definition sample_left :: "symbol \<Rightarrow> bool" where
  "sample_left s =
     (s \<in> set [Tok TOK_PLUS, Tok TOK_MINUS, Tok TOK_DIV, Tok TOK_MOD, Tok TOK_ASTERISK])"

fun sample_label :: "symbol \<Rightarrow> string" where
  "sample_label (Tok TOK_PIPE) = ''|''"
| "sample_label (Tok TOK_DSLASH) = ''//''"
| "sample_label (Tok TOK_SLASH) = ''/''"
| "sample_label (Tok TOK_AXIS) = ''::''"
| "sample_label (Tok TOK_COLON) = '':''"
| "sample_label (Tok TOK_AXISNAME) = ''[axis]''"
| "sample_label (Tok TOK_PARENO) = ''(''"
| "sample_label (Tok TOK_PARENC) = '')''"
| "sample_label (Tok TOK_DDOT) = ''..''"
| "sample_label (Tok TOK_DOT) = ''.''"
| "sample_label (Tok TOK_AT) = ''@''"
| "sample_label (Tok TOK_COMMA) = '',''"
| "sample_label (Tok TOK_OR) = ''or''"
| "sample_label (Tok TOK_AND) = ''and''"
| "sample_label (Tok TOK_EQ) = ''=''"
| "sample_label (Tok TOK_NEQ) = ''!=''"
| "sample_label (Tok TOK_GE) = ''>=''"
| "sample_label (Tok TOK_GT) = ''>''"
| "sample_label (Tok TOK_LE) = ''<=''"
| "sample_label (Tok TOK_LT) = ''<''"
| "sample_label (Tok TOK_PLUS) = ''+''"
| "sample_label (Tok TOK_MINUS) = ''-''"
| "sample_label (Tok TOK_DIV) = ''div''"
| "sample_label (Tok TOK_MOD) = ''mod''"
| "sample_label (Tok TOK_BRACKO) = ''[''"
| "sample_label (Tok TOK_BRACKC) = '']''"
| "sample_label (Tok TOK_DOLLAR) = ''$''"
| "sample_label (Tok TOK_NCNAME) = ''[ncname]''"
| "sample_label (Tok TOK_ASTERISK) = ''*''"
| "sample_label (Tok TOK_LITERALQ) = ''[litq]''"
| "sample_label (Tok TOK_LITERALQQ) = ''[litqq]''"
| "sample_label (Tok TOK_NUMBER) = ''[number]''"
| "sample_label (Tok TOK_QNAME) = ''[qname]''"
| "sample_label (Tok TOK_NODEO) = ''[nodetest-start]''"
| "sample_label (NT XPathLocationPath) = ''LocationPath''"
| "sample_label (NT XPathRelativeLocationPath) = ''RelativeLocationPath''"
| "sample_label (NT XPathAbsoluteLocationPath) = ''AbsoluteLocationPath''"
| "sample_label (NT XPathStep) = ''Step''"
| "sample_label (NT XPathNodeTest) = ''NodeTest''"
| "sample_label (NT XPathPredicate) = ''Predicate''"
| "sample_label (NT XPathLiteral) = ''Literal''"
| "sample_label (NT XPathExpr) = ''Expr''"
| "sample_label (NT XPathPrimaryExpr) = ''PrimaryExpr''"
| "sample_label (NT XPathVariableReference) = ''Variablereference''"
| "sample_label (NT XPathNumber) = ''Number''"
| "sample_label (NT XPathFunctionCall) = ''FunctionCall''"
| "sample_label (NT XPathArgumentRemainder) = ''ArgumentRemainder''"
| "sample_label (NT XPathPathExpr) = ''PathExpr''"
| "sample_label (NT XPathUnionExpr) = ''UnionExpr''"
| "sample_label (NT XPathFilterExpr) = ''FilterExpr''"
| "sample_label (NT XPathDigits) = ''Digits''"
| "sample_label Q_MM = ''*''"
| "sample_label Q_01 = ''?''"
| "sample_label Q_1M = ''+''"

definition sample_tokens :: tokens where
  "sample_tokens =
     \<lparr> xPathTokenRules =
         [TOK_DSLASH, TOK_SLASH, TOK_DDOT, TOK_DOT, TOK_AXISNAME, TOK_AXIS, TOK_COLON,
          TOK_PARENO, TOK_PARENC, TOK_BRACKO, TOK_BRACKC, TOK_AT, TOK_COMMA, TOK_OR, TOK_AND,
          TOK_NEQ, TOK_EQ, TOK_GE, TOK_GT, TOK_LE, TOK_LT, TOK_PLUS, TOK_MINUS, TOK_ASTERISK,
          TOK_PIPE, TOK_MOD, TOK_DIV, TOK_LITERALQ, TOK_LITERALQQ, TOK_NUMBER, TOK_NODEO,
          TOK_QNAME, TOK_NCNAME, TOK_DOLLAR],
       re_of = sample_re, prec_of = sample_prec, left_of = sample_left,
       label_of = sample_label \<rparr>"

section \<open>xpath/xpath.ts: xPathStep\<close>

text \<open>
  Lines 1075--1120. Of a step the function reads the flag hasPositionalPredicate and
  the predicates. \<^verbatim>\<open>expressions/\<close> and \<^verbatim>\<open>expr-context.ts\<close> are not part of the
  sources, so the evaluation of a step and of a predicate are parameters:
  \<open>evaluate E s flag input\<close> is \<^verbatim>\<open>s.evaluate(ctx2).nodeSetValue()\<close> for the context
  \<^verbatim>\<open>ctx2\<close> of the single node \<open>input\<close> whose returnOnFirstMatch is \<open>flag\<close>, and
  \<open>booleanValue E p nodeList i\<close> is the boolean value of the predicate \<open>p\<close> in the
  context of \<open>nodeList\<close> at position \<open>i\<close>. Both are total here: an evaluation that
  throws is outside this model. The array \<^verbatim>\<open>nodes\<close> is passed and returned.

  \<^verbatim>\<open>steps[step]\<close> is \<^verbatim>\<open>undefined\<close> past the end of the array, and reading its flag
  raises a TypeError. The two loops are functions of the loop index.
\<close>

record ('s, 'p) step =
  step_expr :: 's
  hasPositionalPredicate :: bool
  predicate :: "'p list"

record ('n, 's, 'p) evaluator =
  evaluate :: "('s, 'p) step \<Rightarrow> bool \<Rightarrow> 'n \<Rightarrow> 'n list"
  booleanValue :: "'p \<Rightarrow> 'n list \<Rightarrow> nat \<Rightarrow> bool"

function
  xPathStep ::
    "('n, 's, 'p) evaluator \<Rightarrow> bool \<Rightarrow> 'n list \<Rightarrow> ('s, 'p) step list \<Rightarrow> nat \<Rightarrow> 'n
       \<Rightarrow> js_error + 'n list"
  and nodeListLoop ::
    "('n, 's, 'p) evaluator \<Rightarrow> bool \<Rightarrow> 'n list \<Rightarrow> ('s, 'p) step list \<Rightarrow> nat \<Rightarrow> 'n list \<Rightarrow> nat
       \<Rightarrow> js_error + 'n list"
  and all_nodes_loop ::
    "('n, 's, 'p) evaluator \<Rightarrow> bool \<Rightarrow> 'n list \<Rightarrow> ('s, 'p) step list \<Rightarrow> nat \<Rightarrow> 'n list \<Rightarrow> nat
       \<Rightarrow> js_error + 'n list"
where
  "xPathStep E returnOnFirstMatch nodes steps step input =
     (if step < length steps then
        (if returnOnFirstMatch \<and> \<not> hasPositionalPredicate (steps ! step) then
           nodeListLoop E returnOnFirstMatch nodes steps step
             (evaluate E (steps ! step) True input) 0
         else
           all_nodes_loop E returnOnFirstMatch nodes steps step
             (evaluate E (steps ! step) False input) 0)
      else Inl TypeError)"
| "nodeListLoop E returnOnFirstMatch nodes steps step nodeList i =
     (if i < length nodeList then
        (if list_all (\<lambda>p. booleanValue E p nodeList i) (predicate (steps ! step)) then
           bindE
             (if step = length steps - 1 then Inr (nodes @ [nodeList ! i])
              else if step + 1 < length steps then
                xPathStep E returnOnFirstMatch nodes steps (step + 1) (nodeList ! i)
              else Inl TypeError)
             (\<lambda>nodes.
                if length nodes > 0 then Inr nodes
                else nodeListLoop E returnOnFirstMatch nodes steps step nodeList (i + 1))
         else nodeListLoop E returnOnFirstMatch nodes steps step nodeList (i + 1))
      else Inr nodes)"
| "all_nodes_loop E returnOnFirstMatch nodes steps step nodeList i =
     (if i < length nodeList then
        bindE
          (if step = length steps - 1 then Inr (nodes @ [nodeList ! i])
           else if step + 1 < length steps then
             xPathStep E returnOnFirstMatch nodes steps (step + 1) (nodeList ! i)
           else Inl TypeError)
          (\<lambda>nodes. all_nodes_loop E returnOnFirstMatch nodes steps step nodeList (i + 1))
      else Inr nodes)"
  by pat_completeness auto

termination
  apply (relation "inv_image (less_than <*lex*> less_than <*lex*> less_than)
     (\<lambda>x. case x of
         Inl (E, r, nodes, steps, step, input) \<Rightarrow> (length steps - step, 1, 0)
       | Inr (Inl (E, r, nodes, steps, step, nodeList, i)) \<Rightarrow>
           (length steps - step, 0, length nodeList - i)
       | Inr (Inr (E, r, nodes, steps, step, nodeList, i)) \<Rightarrow>
           (length steps - step, 0, length nodeList - i))")
  apply auto
  done

declare xPathStep.simps [simp del] nodeListLoop.simps [simp del]
  all_nodes_loop.simps [simp del]

text \<open>What the loops do with one node of the node list that is kept.\<close>

definition visit ::
  "('n, 's, 'p) evaluator \<Rightarrow> bool \<Rightarrow> ('s, 'p) step list \<Rightarrow> nat \<Rightarrow> 'n list \<Rightarrow> 'n
     \<Rightarrow> js_error + 'n list" where
  "visit E r steps step nodes n =
     (if step = length steps - 1 then Inr (nodes @ [n])
      else if step + 1 < length steps then xPathStep E r nodes steps (step + 1) n
      else Inl TypeError)"



definition passes :: "('n, 's, 'p) evaluator \<Rightarrow> ('s, 'p) step \<Rightarrow> 'n list \<Rightarrow> nat \<Rightarrow> bool" where
  "passes E s nodeList i = list_all (\<lambda>p. booleanValue E p nodeList i) (predicate s)"



subsection \<open>A sample document and evaluator\<close>

text \<open>
  Modelled from the spec: the node model and two axes (\<^verbatim>\<open>dom/xnode.ts\<close> and
  StepExpr.evaluate are not part of the sources). A node has a document-order
  identifier and ordered children; the descendant axis yields the descendants in
  document order, the following-sibling axis the later siblings in document order. A
  node is named by its identifier. Evaluated with the flag, a step yields the nodes of
  its axis; without it, it applies its predicates, each a position that keeps the node
  at that position.
\<close>

datatype xnode = XNode nat "xnode list"

fun ident :: "xnode \<Rightarrow> nat" where
  "ident (XNode i cs) = i"

fun descendants :: "xnode \<Rightarrow> xnode list" where
  "descendants (XNode i cs) = concat (map (\<lambda>c. c # descendants c) cs)"

fun following_siblings :: "xnode \<Rightarrow> nat \<Rightarrow> xnode list" where
  "following_siblings (XNode i cs) n =
     (case dropWhile (\<lambda>c. ident c \<noteq> n) cs of
        c # rest \<Rightarrow> rest
      | [] \<Rightarrow> concat (map (\<lambda>c. following_siblings c n) cs))"

definition subtree :: "xnode \<Rightarrow> nat \<Rightarrow> xnode option" where
  "subtree doc n = find (\<lambda>t. ident t = n) (doc # descendants doc)"

datatype axis = Descendant | FollowingSibling

definition sample_doc :: xnode where
  "sample_doc = XNode 0 [XNode 1 [XNode 2 [], XNode 3 []], XNode 4 []]"

definition axis_nodes :: "axis \<Rightarrow> nat \<Rightarrow> nat list" where
  "axis_nodes a n =
     (case a of
        Descendant \<Rightarrow>
          (case subtree sample_doc n of None \<Rightarrow> [] | Some t \<Rightarrow> map ident (descendants t))
      | FollowingSibling \<Rightarrow> map ident (following_siblings sample_doc n))"

fun nth_only :: "'a list \<Rightarrow> nat \<Rightarrow> 'a list" where
  "nth_only xs k = (if 0 < k \<and> k \<le> length xs then [xs ! (k - 1)] else [])"

definition sample_evaluator :: "(nat, axis, nat) evaluator" where
  "sample_evaluator =
     \<lparr> evaluate = (\<lambda>s flag n.
          if flag then axis_nodes (step_expr s) n
          else foldl nth_only (axis_nodes (step_expr s) n) (predicate s)),
       booleanValue = (\<lambda>p nodeList i. p \<noteq> 0) \<rparr>"


definition sample_positional_path :: "(axis, nat) step list" where
  "sample_positional_path =
     [\<lparr> step_expr = Descendant, hasPositionalPredicate = False, predicate = [] \<rparr>,
      \<lparr> step_expr = FollowingSibling, hasPositionalPredicate = True, predicate = [1] \<rparr>]"

text \<open>
  A second evaluator over the same document, in which a predicate \<open>k\<close> is
  \<^verbatim>\<open>position() >= k\<close>: without the flag a step keeps the nodes of its axis from the
  \<open>k\<close>-th on. \<open>sample_from_step\<close> is the path \<^verbatim>\<open>descendant::*[position() >= 2]\<close> and
  \<open>sample_from_path\<close> the path \<^verbatim>\<open>descendant::*/following-sibling::*[position() >= 1]\<close>.
\<close>

definition sample_from_evaluator :: "(nat, axis, nat) evaluator" where
  "sample_from_evaluator =
     \<lparr> evaluate = (\<lambda>s flag n.
          if flag then axis_nodes (step_expr s) n
          else foldl (\<lambda>xs k. drop (k - 1) xs) (axis_nodes (step_expr s) n) (predicate s)),
       booleanValue = (\<lambda>p nodeList i. p \<le> i + 1) \<rparr>"

definition sample_from_step :: "(axis, nat) step list" where
  "sample_from_step =
     [\<lparr> step_expr = Descendant, hasPositionalPredicate = True, predicate = [2] \<rparr>]"

definition sample_from_path :: "(axis, nat) step list" where
  "sample_from_path =
     [\<lparr> step_expr = Descendant, hasPositionalPredicate = False, predicate = [] \<rparr>,
      \<lparr> step_expr = FollowingSibling, hasPositionalPredicate = True, predicate = [1] \<rparr>]"

section \<open>xpath/xpath.ts: xPathSort\<close>

text \<open>
  Lines 996--1073. A sort key of an item is the value of one sort expression for the
  node, or the index of the node in the context node list, which xPathSort appends as
  the last key. The values of the sort expressions are of a type \<open>'v\<close> with the two
  comparisons \<^verbatim>\<open>>\<close> and \<^verbatim>\<open><\<close> of JavaScript as parameters (on numbers both are false
  when an operand is NaN); indices are compared as numbers. The two kinds of key never
  meet in one comparison, since every item has the index as its last key and as many
  keys as every other.
\<close>

datatype 'v key_value = Value 'v | Index nat

record 'v sort_key =
  kvalue :: "'v key_value"
  korder :: string

record ('n, 'v) sort_item =
  node :: 'n
  key :: "'v sort_key list"

record 'v compare =
  js_gt :: "'v \<Rightarrow> 'v \<Rightarrow> bool"
  js_lt :: "'v \<Rightarrow> 'v \<Rightarrow> bool"


fun lt :: "'v compare \<Rightarrow> 'v key_value \<Rightarrow> 'v key_value \<Rightarrow> bool" where
  "lt C (Value a) (Value b) = js_lt C a b"
| "lt C (Index i) (Index j) = (i < j)"
| "lt C a b = False"




record 'n expr_context =
  nodeList :: "'n list"
  position :: nat

















section \<open>xpath/xpath.ts: what the factories rely on\<close>










section \<open>Lemmas about xPathStep\<close>

lemma all_nodes_loop_fold:
  "all_nodes_loop E r nodes steps step nl i =
     foldl (\<lambda>acc n. bindE acc (\<lambda>nodes. visit E r steps step nodes n)) (Inr nodes)
       (drop i nl)"
proof (induction "length nl - i" arbitrary: i nodes)
  case 0
  then show ?case
    by (subst all_nodes_loop.simps) simp
next
  case (Suc k)
  then have i: "i < length nl" and k: "k = length nl - (i + 1)" by simp_all
  have fold_Inl: "foldl (\<lambda>acc n. bindE acc (\<lambda>nodes. visit E r steps step nodes n)) (Inl e) xs = Inl e"
    for e xs
    by (induction xs) (simp_all add: bindE_def)
  from i have d: "drop i nl = nl ! i # drop (i + 1) nl"
    by (simp add: Cons_nth_drop_Suc)
  show ?case
  proof (cases "visit E r steps step nodes (nl ! i)")
    case (Inl e)
    with i d fold_Inl show ?thesis
      by (subst all_nodes_loop.simps) (simp add: bindE_def visit_def)
  next
    case (Inr nodes')
    with i d Suc.hyps(1) [OF k, of nodes'] show ?thesis
      by (subst all_nodes_loop.simps) (simp add: bindE_def visit_def)
  qed
qed

lemma fold_visit_last:
  assumes "step = length steps - 1"
  shows "foldl (\<lambda>acc n. bindE acc (\<lambda>nodes. visit E r steps step nodes n)) (Inr nodes) xs
           = Inr (nodes @ xs)"
  using assms by (induction xs arbitrary: nodes) (simp_all add: bindE_def visit_def)






lemma nodeListLoop_visit:
  "nodeListLoop E r nodes steps step nl i =
     (if i < length nl then
        (if passes E (steps ! step) nl i then
           bindE (visit E r steps step nodes (nl ! i))
             (\<lambda>nodes. if length nodes > 0 then Inr nodes
                      else nodeListLoop E r nodes steps step nl (i + 1))
         else nodeListLoop E r nodes steps step nl (i + 1))
      else Inr nodes)"
  by (subst nodeListLoop.simps) (simp add: visit_def passes_def)

lemma nodeListLoop_early:
  assumes "k < length nl" "passes E (steps ! step) nl k"
    and "\<forall>j. i \<le> j \<and> j < k \<longrightarrow> passes E (steps ! step) nl j \<longrightarrow>
           nodes = [] \<and> visit E True steps step [] (nl ! j) = Inr []"
    and "visit E True steps step nodes (nl ! k) \<noteq> Inr []" "i \<le> k"
  shows "nodeListLoop E True nodes steps step nl i = visit E True steps step nodes (nl ! k)"
  using assms
proof (induction "k - i" arbitrary: i nodes)
  case 0
  then have ik: "i = k" by simp
  show ?case
  proof (cases "visit E True steps step nodes (nl ! k)")
    case (Inl e)
    with 0 ik show ?thesis
      by (subst nodeListLoop_visit) (simp add: bindE_def)
  next
    case (Inr out)
    with 0 have "out \<noteq> []" by simp
    with Inr 0 ik show ?thesis
      by (subst nodeListLoop_visit) (simp add: bindE_def)
  qed
next
  case (Suc d)
  then have lt: "i < k" and il: "i < length nl" by simp_all
  have rest: "\<forall>j. Suc i \<le> j \<and> j < k \<longrightarrow> passes E (steps ! step) nl j \<longrightarrow>
           nodes = [] \<and> visit E True steps step [] (nl ! j) = Inr []"
    using Suc.prems(3) Suc_leD by blast
  show ?case
  proof (cases "passes E (steps ! step) nl i")
    case True
    with Suc.prems(3) lt have n: "nodes = []" and v: "visit E True steps step [] (nl ! i) = Inr []"
      by auto
    have "nodeListLoop E True nodes steps step nl i = nodeListLoop E True [] steps step nl (Suc i)"
      using True il n v
      by (subst nodeListLoop_visit) (simp add: bindE_def)
    also have "\<dots> = visit E True steps step [] (nl ! k)"
      using Suc.hyps(2) Suc.prems(1,2,4) rest lt n
      by (intro Suc.hyps(1)) auto
    finally show ?thesis using n by simp
  next
    case False
    have "nodeListLoop E True nodes steps step nl i = nodeListLoop E True nodes steps step nl (Suc i)"
      using False il
      by (subst nodeListLoop_visit) simp
    also have "\<dots> = visit E True steps step nodes (nl ! k)"
      using Suc.hyps(2) Suc.prems(1,2,4) rest lt
      by (intro Suc.hyps(1)) auto
    finally show ?thesis .
  qed
qed

section \<open>Lemmas about xPathSort\<close>







section \<open>Lemmas about the parser stack\<close>























section \<open>Lemmas about the lexer and the fast paths\<close>

lemma first_match_None:
  "first_match P ts e = None \<longleftrightarrow> (\<forall>t \<in> set ts. \<forall>m. exec P t e = Some m \<longrightarrow> m = [])"
  by (induction ts) (auto split: option.splits)

lemma first_match_prefix:
  "first_match P ts e = Some (t, m) \<Longrightarrow>
     \<exists>pre post. ts = pre @ t # post \<and> exec P t e = Some m \<and> m \<noteq> [] \<and>
        (\<forall>u \<in> set pre. \<forall>m'. exec P u e = Some m' \<longrightarrow> m' = [])"
proof (induction ts)
  case Nil
  then show ?case by simp
next
  case (Cons u ts)
  show ?case
  proof (cases "\<exists>m'. exec P u e = Some m' \<and> m' \<noteq> []")
    case True
    with Cons.prems have "u = t" "exec P t e = Some m" "m \<noteq> []"
      by (auto split: option.splits if_splits)
    then have "u # ts = [] @ t # ts \<and> exec P t e = Some m \<and> m \<noteq> [] \<and>
        (\<forall>u \<in> set []. \<forall>m'. exec P u e = Some m' \<longrightarrow> m' = [])"
      by simp
    then show ?thesis by blast
  next
    case False
    with Cons.prems have "first_match P ts e = Some (t, m)"
      by (auto split: option.splits if_splits)
    from Cons.IH [OF this] obtain pre post where
      p: "ts = pre @ t # post" "exec P t e = Some m" "m \<noteq> []"
        "\<forall>u \<in> set pre. \<forall>m'. exec P u e = Some m' \<longrightarrow> m' = []"
      by blast
    with False have "u # ts = (u # pre) @ t # post \<and> exec P t e = Some m \<and> m \<noteq> [] \<and>
        (\<forall>u \<in> set (u # pre). \<forall>m'. exec P u e = Some m' \<longrightarrow> m' = [])"
      by auto
    then show ?thesis by blast
  qed
qed

lemma makeSimpleExpr2_loop_steps:
  "makeSimpleExpr2_loop (LocationExpr a steps) names =
     Inr (LocationExpr a
            (steps @ map (\<lambda>s. StepExpr xPathAxis_CHILD (NodeTest (NodeTestName s)) []) names))"
  by (induction names arbitrary: steps) (simp_all add: bindE_def appendStep_def)







section \<open>Properties\<close>

subsection \<open>C1: the result of the general parser\<close>



subsection \<open>C2: reduce or shift\<close>

text \<open>
  C2. xPathReduce returns true, having replaced the matched frames by the frame of the
  candidate, exactly when a candidate is found on the stack and there is no lookahead,
  or the precedence of the candidate is greater than that of the lookahead, or the
  lookahead is left-associative and the precedence of the candidate is at least that of
  the lookahead. Otherwise it returns false, having pushed the lookahead if there is
  one. A factory can throw only during a reduction. The candidate is a rule of the
  grammar whose pattern matches the stack.
\<close>

theorem xPathReduce_decision:
  "(\<forall>stack' ret. xPathReduce P stack ahead = Inr (stack', ret) \<longrightarrow>
      (ret \<longleftrightarrow>
         (\<exists>c. find_candidate P stack = Some c \<and>
              (ahead = None \<or>
               (\<exists>a. ahead = Some a \<and>
                  (c_prec c > prec a \<or> (left_of P (tag a) \<and> c_prec c \<ge> prec a)))))) \<and>
      (\<not> ret \<longrightarrow> stack' = stack @ (case ahead of None \<Rightarrow> [] | Some a \<Rightarrow> [a])) \<and>
      (ret \<longrightarrow>
         (\<exists>c e. find_candidate P stack = Some c \<and>
            c_rule c \<in> set xPathGrammarRules \<and>
            xPathMatchStack stack (pattern (c_rule c)) = Some (c_match c, c_matchlength c) \<and>
            apply_action (action (c_rule c)) (map melem_expr (c_match c)) = Inr e \<and>
            stack' = take (length stack - c_matchlength c) stack
                       @ [\<lparr> tag = target (c_rule c), prec = c_prec c, expr = e \<rparr>]))) \<and>
   (\<forall>err. xPathReduce P stack ahead = Inl err \<longrightarrow>
      (\<exists>c. find_candidate P stack = Some c \<and>
           (ahead = None \<or>
            (\<exists>a. ahead = Some a \<and>
               (c_prec c > prec a \<or> (left_of P (tag a) \<and> c_prec c \<ge> prec a))))))"
proof (cases "find_candidate P stack")
  case None
  then show ?thesis
    by (cases ahead) (auto simp: xPathReduce_def)
next
  case (Some c)
  note c = find_candidate_Some [OF Some]
  show ?thesis
  proof (cases ahead)
    case None
    with Some c show ?thesis
      by (auto simp: xPathReduce_def reduces_def bindE_def pop_n_take split: sum.splits)
  next
    case (Some a)
    with \<open>find_candidate P stack = Some c\<close> c show ?thesis
      by (auto simp: xPathReduce_def reduces_def bindE_def pop_n_take split: sum.splits)
  qed
qed

theorem xPathReduce_decision_witness:
  "xPathReduce sample_tokens [ahead_frame sample_tokens TOK_SLASH ''/''] None
     = Inr ([\<lparr> tag = NT XPathAbsoluteLocationPath, prec = 0,
               expr = LocationExpr True [StepExpr ''self'' (NodeTest NodeTestAny) []] \<rparr>], True) \<and>
   (\<exists>c. find_candidate sample_tokens [ahead_frame sample_tokens TOK_SLASH ''/''] = Some c) \<and>
   xPathReduce sample_tokens [] (Some (ahead_frame sample_tokens TOK_SLASH ''/''))
     = Inr ([ahead_frame sample_tokens TOK_SLASH ''/''], False)"
proof -
  have r: "xPathReduce sample_tokens [ahead_frame sample_tokens TOK_SLASH ''/''] None
     = Inr ([\<lparr> tag = NT XPathAbsoluteLocationPath, prec = 0,
               expr = LocationExpr True [StepExpr ''self'' (NodeTest NodeTestAny) []] \<rparr>], True)"
    by code_simp
  have s: "xPathReduce sample_tokens [] (Some (ahead_frame sample_tokens TOK_SLASH ''/''))
     = Inr ([ahead_frame sample_tokens TOK_SLASH ''/''], False)"
    by code_simp
  from xPathReduce_decision [of sample_tokens "[ahead_frame sample_tokens TOK_SLASH ''/'']" None] r
  have "\<exists>c. find_candidate sample_tokens [ahead_frame sample_tokens TOK_SLASH ''/''] = Some c"
    by auto
  with r s show ?thesis by simp
qed

subsection \<open>C3: operator keywords as names\<close>

text \<open>
  C3. When the token rule that the lexer loop selects is one of div, mod, and, or, the
  lexer returns the rule of QName in its place exactly when there is no previous token
  or the tag of the previous token is one of @, //, /, ::, $; the matched text stays.
  Every other rule is returned as selected.
\<close>

theorem keyword_demotion:
  assumes "first_match P (xPathTokenRules P) expression = Some (rule, m)"
  shows "findXPathRuleForExpression P expression previous =
           (Some (if rule \<in> {TOK_DIV, TOK_MOD, TOK_AND, TOK_OR} \<and>
                     (previous = None \<or>
                      (\<exists>prev. previous = Some prev \<and>
                         tag prev \<in> {Tok TOK_AT, Tok TOK_DSLASH, Tok TOK_SLASH, Tok TOK_AXIS,
                                      Tok TOK_DOLLAR}))
                  then TOK_QNAME else rule), m) \<and>
         (rule \<in> {TOK_DIV, TOK_MOD, TOK_AND, TOK_OR} \<longrightarrow>
            (fst (findXPathRuleForExpression P expression previous) = Some TOK_QNAME \<longleftrightarrow>
               (previous = None \<or>
                (\<exists>prev. previous = Some prev \<and>
                   tag prev \<in> {Tok TOK_AT, Tok TOK_DSLASH, Tok TOK_SLASH, Tok TOK_AXIS,
                                Tok TOK_DOLLAR}))))"
  using assms by (auto simp: findXPathRuleForExpression_def split: option.splits)

theorem keyword_demotion_witness:
  "findXPathRuleForExpression sample_tokens ''and'' None = (Some TOK_QNAME, ''and'') \<and>
   findXPathRuleForExpression sample_tokens ''and''
     (Some (ahead_frame sample_tokens TOK_AXIS ''::'')) = (Some TOK_QNAME, ''and'') \<and>
   findXPathRuleForExpression sample_tokens ''and''
     (Some (ahead_frame sample_tokens TOK_QNAME ''a'')) = (Some TOK_AND, ''and'')"
proof -
  have f: "first_match sample_tokens (xPathTokenRules sample_tokens) ''and''
      = Some (TOK_AND, ''and'')"
    by code_simp
  from keyword_demotion [OF f, of None]
    keyword_demotion [OF f, of "Some (ahead_frame sample_tokens TOK_AXIS ''::'')"]
    keyword_demotion [OF f, of "Some (ahead_frame sample_tokens TOK_QNAME ''a'')"]
  show ?thesis
    by (simp add: ahead_frame_def)
qed

subsection \<open>C4: the first-match optimization and positional steps\<close>

text \<open>
  C4 as stated fails: xPathStep tests the positional flag of the step it evaluates, not
  of the path. In the sample document the path descendant::*/following-sibling::*[1]
  has a positional second step, and with returnOnFirstMatch set its first step still
  leaves its loop at the first match: the result is the node 4 alone, where the
  evaluation without the flag collects the nodes 4 and 3.
\<close>

theorem first_match_kept_on_other_steps:
  "list_ex hasPositionalPredicate sample_positional_path \<and>
   xPathStep sample_evaluator True [] sample_positional_path 0 0 = Inr [4] \<and>
   xPathStep sample_evaluator False [] sample_positional_path 0 0 = Inr [4, 3]"
  by code_simp

text \<open>
  C4, amended. The optimization is disabled step by step. With returnOnFirstMatch set,
  a step that itself has a positional predicate is evaluated without the early return:
  every node of its node list is visited in order, from the first to the last, and the
  last step of a path pushes all of them. A step that has no positional predicate is
  evaluated with the early return, whatever the other steps of the path are: the loop
  returns at the first node of its node list that passes the predicates and whose
  visit leaves \<^verbatim>\<open>nodes\<close> non-empty (or throws), and the nodes after it are not
  visited. Before that node, only nodes that fail a predicate or whose visit pushes
  nothing are passed over.
\<close>

theorem optimization_gated_per_step:
  assumes "step < length steps"
  shows "(hasPositionalPredicate (steps ! step) \<longrightarrow>
            xPathStep E True nodes steps step input =
              foldl (\<lambda>acc n. bindE acc (\<lambda>nodes. visit E True steps step nodes n))
                (Inr nodes) (evaluate E (steps ! step) False input) \<and>
            (step = length steps - 1 \<longrightarrow>
               xPathStep E True nodes steps step input =
                 Inr (nodes @ evaluate E (steps ! step) False input))) \<and>
         (\<not> hasPositionalPredicate (steps ! step) \<longrightarrow>
            (\<forall>k. k < length (evaluate E (steps ! step) True input) \<and>
                 passes E (steps ! step) (evaluate E (steps ! step) True input) k \<and>
                 (\<forall>j < k. passes E (steps ! step) (evaluate E (steps ! step) True input) j \<longrightarrow>
                    nodes = [] \<and>
                    visit E True steps step [] (evaluate E (steps ! step) True input ! j) = Inr []) \<and>
                 visit E True steps step nodes (evaluate E (steps ! step) True input ! k) \<noteq> Inr []
               \<longrightarrow> xPathStep E True nodes steps step input =
                     visit E True steps step nodes (evaluate E (steps ! step) True input ! k)))"
proof (intro conjI impI allI)
  assume p: "hasPositionalPredicate (steps ! step)"
  with assms have "xPathStep E True nodes steps step input =
      all_nodes_loop E True nodes steps step (evaluate E (steps ! step) False input) 0"
    by (subst xPathStep.simps) auto
  then show f: "xPathStep E True nodes steps step input =
           foldl (\<lambda>acc n. bindE acc (\<lambda>nodes. visit E True steps step nodes n))
             (Inr nodes) (evaluate E (steps ! step) False input)"
    by (simp add: all_nodes_loop_fold)
  assume "step = length steps - 1"
  then show "xPathStep E True nodes steps step input =
          Inr (nodes @ evaluate E (steps ! step) False input)"
    unfolding f by (rule fold_visit_last)
next
  fix k
  assume np: "\<not> hasPositionalPredicate (steps ! step)"
  assume h: "k < length (evaluate E (steps ! step) True input) \<and>
                 passes E (steps ! step) (evaluate E (steps ! step) True input) k \<and>
                 (\<forall>j < k. passes E (steps ! step) (evaluate E (steps ! step) True input) j \<longrightarrow>
                    nodes = [] \<and>
                    visit E True steps step [] (evaluate E (steps ! step) True input ! j) = Inr []) \<and>
                 visit E True steps step nodes (evaluate E (steps ! step) True input ! k) \<noteq> Inr []"
  from np assms have "xPathStep E True nodes steps step input =
      nodeListLoop E True nodes steps step (evaluate E (steps ! step) True input) 0"
    by (subst xPathStep.simps) auto
  also from h have "\<dots> = visit E True steps step nodes (evaluate E (steps ! step) True input ! k)"
    by (intro nodeListLoop_early) auto
  finally show "xPathStep E True nodes steps step input =
                     visit E True steps step nodes (evaluate E (steps ! step) True input ! k)" .
qed

theorem optimization_gated_per_step_witness:
  "evaluate sample_from_evaluator (sample_from_step ! 0) False 0 = [2, 3, 4] \<and>
   xPathStep sample_from_evaluator True [] sample_from_step 0 0 = Inr [2, 3, 4] \<and>
   evaluate sample_from_evaluator (sample_from_path ! 0) True 0 = [1, 2, 3, 4] \<and>
   visit sample_from_evaluator True sample_from_path 0 [] 1 = Inr [4] \<and>
   xPathStep sample_from_evaluator True [] sample_from_path 0 0 = Inr [4] \<and>
   xPathStep sample_from_evaluator False [] sample_from_path 0 0 = Inr [4, 3]"
proof -
  have a: "evaluate sample_from_evaluator (sample_from_step ! 0) False 0 = [2, 3, 4]"
    by code_simp
  have b: "(0::nat) < length sample_from_step" "hasPositionalPredicate (sample_from_step ! 0)"
    "(0::nat) = length sample_from_step - 1"
    by (simp_all add: sample_from_step_def)
  from optimization_gated_per_step [OF b(1), of sample_from_evaluator "[]" 0] b(2,3)
  have "xPathStep sample_from_evaluator True [] sample_from_step 0 0 =
          Inr ([] @ evaluate sample_from_evaluator (sample_from_step ! 0) False 0)"
    by blast
  with a have c: "xPathStep sample_from_evaluator True [] sample_from_step 0 0 = Inr [2, 3, 4]"
    by simp
  have d: "evaluate sample_from_evaluator (sample_from_path ! 0) True 0 = [1, 2, 3, 4]"
    by code_simp
  have e: "visit sample_from_evaluator True sample_from_path 0 [] 1 = Inr [4]"
    by code_simp
  have f: "(0::nat) < length sample_from_path" "\<not> hasPositionalPredicate (sample_from_path ! 0)"
    "passes sample_from_evaluator (sample_from_path ! 0) [1, 2, 3, 4] 0"
    by (simp_all add: sample_from_path_def passes_def)
  from d e f(3)
  have k: "0 < length (evaluate sample_from_evaluator (sample_from_path ! 0) True 0) \<and>
      passes sample_from_evaluator (sample_from_path ! 0)
        (evaluate sample_from_evaluator (sample_from_path ! 0) True 0) 0 \<and>
      (\<forall>j < 0. passes sample_from_evaluator (sample_from_path ! 0)
           (evaluate sample_from_evaluator (sample_from_path ! 0) True 0) j \<longrightarrow>
         [] = [] \<and>
         visit sample_from_evaluator True sample_from_path 0 []
           (evaluate sample_from_evaluator (sample_from_path ! 0) True 0 ! j) = Inr []) \<and>
      visit sample_from_evaluator True sample_from_path 0 []
        (evaluate sample_from_evaluator (sample_from_path ! 0) True 0 ! 0) \<noteq> Inr []"
    by simp
  from optimization_gated_per_step [OF f(1), of sample_from_evaluator "[]" 0] f(2) k
  have "xPathStep sample_from_evaluator True [] sample_from_path 0 0 =
          visit sample_from_evaluator True sample_from_path 0 []
            (evaluate sample_from_evaluator (sample_from_path ! 0) True 0 ! 0)"
    by blast
  with d e have g: "xPathStep sample_from_evaluator True [] sample_from_path 0 0 = Inr [4]"
    by simp
  have h: "xPathStep sample_from_evaluator False [] sample_from_path 0 0 = Inr [4, 3]"
    by code_simp
  from a c d e g h show ?thesis by simp
qed

subsection \<open>C5: the node that the optimization returns\<close>




subsection \<open>C6: the fast paths\<close>

text \<open>
  C6 as stated fails: of the inputs that the first pattern accepts, a variable
  reference yields a VariableExpr and a string of digits a NumberExpr, not a Location.
\<close>

theorem fast_path_not_location:
  "matches_simple ''$x'' \<and>
   fst (xPathParse sample_tokens empty_cache ''$x'' None) = Inr (VariableExpr ''x'') \<and>
   matches_simple ''42'' \<and>
   fst (xPathParse sample_tokens empty_cache ''42'' None) = Inr (NumberExpr ''42'')"
  by code_simp

text \<open>
  C6, amended. For every input that one of the two fast-path patterns accepts,
  xPathParse returns without reading the token table or the grammar, whatever the
  cache holds. The result is a VariableExpr of the name for
  \<open>$name\<close>; a Location of one attribute step with the name test for \<open>@name\<close>; a
  NumberExpr for a string of digits; a Location of one name-test step on the given
  axis (child by default) for any other bare name; and a Location of one child
  name-test step per name for a chain of names separated by \<open>/\<close>.
\<close>

theorem fast_path_result:
  assumes "matches_simple expression \<or> matches_path expression"
  shows "fst (xPathParse P xPathParseCache expression axis) =
           Inr
             (if matches_simple expression then
                (if take 1 expression = ''$'' then VariableExpr (drop 1 expression)
                 else if take 1 expression = ''@'' then
                   LocationExpr False
                     [StepExpr ''attribute'' (NodeTest (NodeTestName (drop 1 expression))) []]
                 else if list_all is_digit expression then NumberExpr expression
                 else
                   LocationExpr False
                     [StepExpr (or_default axis ''child'') (NodeTest (NodeTestName expression)) []])
              else
                LocationExpr False
                  (map (\<lambda>name. StepExpr ''child'' (NodeTest (NodeTestName name)) [])
                     (js_split CHR ''/'' expression)))"
proof (cases "matches_simple expression")
  case True
  then have "expression \<noteq> []" by (auto simp: matches_simple_def)
  with True show ?thesis
    by (simp add: xPathParse_def cached_def makeSimpleExpr_def appendStep_def xPathAxis_CHILD_def)
next
  case False
  with assms show ?thesis
    by (simp add: xPathParse_def cached_def makeSimpleExpr2_def makeSimpleExpr2_loop_steps
        xPathAxis_CHILD_def)
qed

theorem fast_path_result_witness:
  "fst (xPathParse sample_tokens empty_cache ''a/b'' None)
     = Inr (LocationExpr False
              [StepExpr ''child'' (NodeTest (NodeTestName ''a'')) [],
               StepExpr ''child'' (NodeTest (NodeTestName ''b'')) []]) \<and>
   fst (xPathParse sample_tokens empty_cache ''@id'' None)
     = Inr (LocationExpr False [StepExpr ''attribute'' (NodeTest (NodeTestName ''id'')) []])"
proof -
  have 1: "matches_simple ''a/b'' \<or> matches_path ''a/b''" by code_simp
  have 2: "matches_simple ''@id'' \<or> matches_path ''@id''" by code_simp
  have 3: "\<not> matches_simple ''a/b''" "matches_simple ''@id''" by code_simp+
  have 4: "js_split CHR ''/'' ''a/b'' = [''a'', ''b'']" by code_simp
  from fast_path_result [OF 1, of sample_tokens empty_cache None]
    fast_path_result [OF 2, of sample_tokens empty_cache None] 3 4
  show ?thesis by auto
qed

subsection \<open>C7: the rule that the lexer selects\<close>

text \<open>
  C7 as stated fails: the loop leaves at the first rule of the table whose match is not
  empty and compares no lengths. In the sample table, as in the description of the
  token rules, the operator keywords stand before the names. After a name token the
  input \<open>div-x\<close> is read as the keyword \<open>div\<close>, three characters, although the rule of
  QName, later in the table, matches all five characters.
\<close>

theorem lexer_not_longest_match:
  "findXPathRuleForExpression sample_tokens ''div-x''
       (Some (ahead_frame sample_tokens TOK_QNAME ''a''))
     = (Some TOK_DIV, ''div'') \<and>
   TOK_QNAME \<in> set (xPathTokenRules sample_tokens) \<and>
   exec sample_tokens TOK_QNAME ''div-x'' = Some ''div-x''"
  by code_simp

text \<open>
  C7, amended. For every remaining input the lexer selects the first rule, in the order
  of the token table, whose expression matches a non-empty prefix of the input: no
  earlier rule of the table has a non-empty match. It returns that rule, or the rule of
  QName in its place, with the matched prefix; it returns no rule exactly when no rule
  of the table has a non-empty match.
\<close>

theorem lexer_first_match:
  "(\<forall>r m. findXPathRuleForExpression P e previous = (Some r, m) \<longrightarrow>
      (\<exists>pre t post. xPathTokenRules P = pre @ t # post \<and>
         exec P t e = Some m \<and> m \<noteq> [] \<and>
         (\<forall>u \<in> set pre. \<forall>m'. exec P u e = Some m' \<longrightarrow> m' = []) \<and>
         (r = t \<or> r = TOK_QNAME))) \<and>
   (fst (findXPathRuleForExpression P e previous) = None \<longleftrightarrow>
      (\<forall>t \<in> set (xPathTokenRules P). \<forall>m. exec P t e = Some m \<longrightarrow> m = []))"
proof (cases "first_match P (xPathTokenRules P) e")
  case None
  with first_match_None [of P "xPathTokenRules P" e] show ?thesis
    by (simp add: findXPathRuleForExpression_def)
next
  case (Some tm)
  obtain t m where tm: "tm = (t, m)" by (cases tm)
  from Some tm first_match_prefix [of P "xPathTokenRules P" e t m]
  obtain pre post where p: "xPathTokenRules P = pre @ t # post" "exec P t e = Some m" "m \<noteq> []"
    "\<forall>u \<in> set pre. \<forall>m'. exec P u e = Some m' \<longrightarrow> m' = []"
    by auto
  have n: "\<not> (\<forall>t \<in> set (xPathTokenRules P). \<forall>m. exec P t e = Some m \<longrightarrow> m = [])"
    using p by auto
  have "\<exists>pre t post. xPathTokenRules P = pre @ t # post \<and>
         exec P t e = Some m' \<and> m' \<noteq> [] \<and>
         (\<forall>u \<in> set pre. \<forall>m'. exec P u e = Some m' \<longrightarrow> m' = []) \<and>
         (r = t \<or> r = TOK_QNAME)"
    if "findXPathRuleForExpression P e previous = (Some r, m')" for r m'
  proof -
    from that Some tm have "m' = m" "r = t \<or> r = TOK_QNAME"
      by (auto simp: findXPathRuleForExpression_def split: if_splits)
    with p show ?thesis by blast
  qed
  moreover from Some tm have "fst (findXPathRuleForExpression P e previous) \<noteq> None"
    by (simp add: findXPathRuleForExpression_def)
  ultimately show ?thesis using n by blast
qed

theorem lexer_first_match_witness:
  "findXPathRuleForExpression sample_tokens ''<=1'' None = (Some TOK_LE, ''<='') \<and>
   (\<exists>pre post. xPathTokenRules sample_tokens = pre @ TOK_LE # post \<and>
      (\<forall>m'. exec sample_tokens TOK_DSLASH ''<=1'' = Some m' \<longrightarrow> m' = []) \<and> TOK_DSLASH \<in> set pre)"
proof -
  have f: "findXPathRuleForExpression sample_tokens ''<=1'' None = (Some TOK_LE, ''<='')"
    by code_simp
  from lexer_first_match [of sample_tokens "''<=1''" None] f
  obtain pre t post where p: "xPathTokenRules sample_tokens = pre @ t # post"
    "exec sample_tokens t ''<=1'' = Some ''<=''"
    "\<forall>u \<in> set pre. \<forall>m'. exec sample_tokens u ''<=1'' = Some m' \<longrightarrow> m' = []"
    "TOK_LE = t \<or> TOK_LE = TOK_QNAME"
    by blast
  from p(4) have t: "t = TOK_LE" by simp
  have d: "TOK_DSLASH \<in> set pre"
  proof -
    have "hd (xPathTokenRules sample_tokens) = TOK_DSLASH"
      by (simp add: sample_tokens_def)
    with p(1) t have "hd (pre @ TOK_LE # post) = TOK_DSLASH"
      by simp
    then show ?thesis by (cases pre) simp_all
  qed
  with p(3) have "\<forall>m'. exec sample_tokens TOK_DSLASH ''<=1'' = Some m' \<longrightarrow> m' = []" by blast
  with f p(1) t d show ?thesis by blast
qed

subsection \<open>C8: the cache\<close>




subsection \<open>C9: xPathSort is stable\<close>





subsection \<open>C10: the VersionInfo error of xmlParse\<close>

text \<open>
  C10. xmlParse throws the Error 'VersionInfo is missing, or unknown version number.'
  exactly when the input begins with \<^verbatim>\<open><?xml\<close> and neither the XML 1.0 nor the XML 1.1
  VersionInfo expression has its leftmost match at offset 5; an input that does not
  begin with \<^verbatim>\<open><?xml\<close> is parsed with the XML 1.0 pair of expressions, and what it
  returns or raises is what the document loop returns or raises.
\<close>

theorem xmlParse_version_info:
  "(xmlParse T build xml = Inl (Error ''VersionInfo is missing, or unknown version number.'')
      \<longleftrightarrow> (starts_with_xml_decl xml
           \<and> search (XML10_VERSION_INFO T) xml \<noteq> 5
           \<and> search (XML11_VERSION_INFO T) xml \<noteq> 5))
   \<and> (\<not> starts_with_xml_decl xml \<longrightarrow>
        xmlParse T build xml =
          (case build XML10 xml of None \<Rightarrow> Inl TypeError | Some d \<Rightarrow> Inr d))"
  by (auto simp: xmlParse_def xmlParse_grammar_def split: option.splits)

theorem xmlParse_version_info_witness:
  "xmlParse sample_xmltoken (\<lambda>g s. Some g) ''<?xml version=\"2.0\"?><a/>''
     = Inl (Error ''VersionInfo is missing, or unknown version number.'')
   \<and> xmlParse sample_xmltoken (\<lambda>g s. Some g) ''<?xml version=\"1.1\"?><a/>'' = Inr XML11
   \<and> xmlParse sample_xmltoken (\<lambda>g s. Some g) ''<a/>'' = Inr XML10"
proof -
  have a: "starts_with_xml_decl ''<?xml version=\"2.0\"?><a/>''"
    by (simp add: starts_with_xml_decl_def)
  have b: "search (XML10_VERSION_INFO sample_xmltoken) ''<?xml version=\"2.0\"?><a/>'' \<noteq> 5"
    by (simp add: search_def sample_xmltoken_def sample_version_info_def upt_rec)
  have c: "search (XML11_VERSION_INFO sample_xmltoken) ''<?xml version=\"2.0\"?><a/>'' \<noteq> 5"
    by (simp add: search_def sample_xmltoken_def sample_version_info_def upt_rec)
  have d: "\<not> starts_with_xml_decl ''<a/>''"
    by (simp add: starts_with_xml_decl_def)
  have e: "xmlParse sample_xmltoken (\<lambda>g s. Some g) ''<?xml version=\"1.1\"?><a/>'' = Inr XML11"
    by (simp add: xmlParse_def xmlParse_grammar_def starts_with_xml_decl_def search_def
        sample_xmltoken_def sample_version_info_def upt_rec)
  from xmlParse_version_info [of sample_xmltoken "\<lambda>g s. Some g" "''<?xml version=\"2.0\"?><a/>''"]
    xmlParse_version_info [of sample_xmltoken "\<lambda>g s. Some g" "''<a/>''"] a b c d e
  show ?thesis by simp
qed

end
